theory Spec2Isabelle
  imports Complex_Main "HOL-Library.Char_ord" "HOL-Library.List_Lexorder" "HOL-Library.Product_Lexorder"
begin

section \<open>Python strings\<close>

text \<open>
  A Python \<open>str\<close> is modelled as a \<open>string\<close>: a list of characters with code points
  0 to 255. The string methods below follow CPython on that range. Every statement of
  this theory about "every string" is therefore a statement about every string of code
  points up to U+00FF.
\<close>

definition code :: "char \<Rightarrow> nat" where
  "code c = of_char c"

definition is_ascii_upper :: "char \<Rightarrow> bool" where
  "is_ascii_upper c = (65 \<le> code c \<and> code c \<le> 90)"

definition is_ascii_lower :: "char \<Rightarrow> bool" where
  "is_ascii_lower c = (97 \<le> code c \<and> code c \<le> 122)"

definition is_ascii_alpha :: "char \<Rightarrow> bool" where
  "is_ascii_alpha c = (is_ascii_upper c \<or> is_ascii_lower c)"

definition is_ascii_digit :: "char \<Rightarrow> bool" where
  "is_ascii_digit c = (48 \<le> code c \<and> code c \<le> 57)"

text \<open>\<open>str.lower\<close>: A-Z and the upper-case letters of Latin-1 (0xC0-0xDE without 0xD7).\<close>

definition lower_char :: "char \<Rightarrow> char" where
  "lower_char c =
     (if is_ascii_upper c \<or> (192 \<le> code c \<and> code c \<le> 222 \<and> code c \<noteq> 215)
      then char_of (code c + 32) else c)"

definition lower :: "string \<Rightarrow> string" where
  "lower s = map lower_char s"

text \<open>The characters \<open>str.strip()\<close> removes: those with \<open>str.isspace\<close>.\<close>

definition is_space :: "char \<Rightarrow> bool" where
  "is_space c = ((9 \<le> code c \<and> code c \<le> 13) \<or> (28 \<le> code c \<and> code c \<le> 32)
                 \<or> code c = 133 \<or> code c = 160)"

definition lstrip_by :: "(char \<Rightarrow> bool) \<Rightarrow> string \<Rightarrow> string" where
  "lstrip_by P s = dropWhile P s"

definition rstrip_by :: "(char \<Rightarrow> bool) \<Rightarrow> string \<Rightarrow> string" where
  "rstrip_by P s = rev (dropWhile P (rev s))"

definition strip_by :: "(char \<Rightarrow> bool) \<Rightarrow> string \<Rightarrow> string" where
  "strip_by P s = rstrip_by P (lstrip_by P s)"

definition strip :: "string \<Rightarrow> string" where
  "strip s = strip_by is_space s"

definition startswith :: "string \<Rightarrow> string \<Rightarrow> bool" where
  "startswith s p = (take (length p) s = p)"

definition endswith :: "string \<Rightarrow> string \<Rightarrow> bool" where
  "endswith s p = (length p \<le> length s \<and> drop (length s - length p) s = p)"

text \<open>\<open>p in s\<close> for strings: \<open>p\<close> occurs as a contiguous block.\<close>

fun contains :: "string \<Rightarrow> string \<Rightarrow> bool" where
  "contains [] p = (p = [])"
| "contains (c # s) p = (startswith (c # s) p \<or> contains s p)"

text \<open>\<open>s.split(sep)\<close> for a one-character separator.\<close>

fun split_on :: "char \<Rightarrow> string \<Rightarrow> string list" where
  "split_on sep [] = [[]]"
| "split_on sep (c # s) =
     (if c = sep then [] # split_on sep s
      else (case split_on sep s of [] \<Rightarrow> [[c]] | w # ws \<Rightarrow> (c # w) # ws))"

section \<open>urllib.parse\<close>

text \<open>
  \<open>urlparse\<close>, \<open>urlunparse\<close> and \<open>urldefrag\<close> of CPython, on \<open>str\<close> arguments with the
  default \<open>scheme=''\<close> and \<open>allow_fragments=True\<close>. \<open>urlsplit\<close> raises \<open>ValueError\<close> on a
  network location with unbalanced or invalid square brackets, and on one that fails the
  NFKC check of \<open>_checknetloc\<close>.

  The releases of CPython differ in two places of \<open>urllib.parse\<close>, which are the two
  fields of the parameter \<open>py\<close> of the model:
  \<^item> what \<open>urlsplit\<close> accepts as a network location that has both an opening and a closing
    square bracket (\<open>_check_bracketed_host\<close> on the text between the brackets, which calls
    the \<open>ipaddress\<close> module; later releases go through \<open>_check_bracketed_netloc\<close>, which
    also looks at the text around the brackets): \<open>bracketed_netloc_ok py netloc\<close> holds
    when no \<open>ValueError\<close> is raised there;
  \<^item> the test that makes \<open>urlunsplit\<close> write \<open>//\<close> in front of the path when the network
    location is empty: \<open>slashes_without_netloc py scheme url\<close>.

  A theorem stated for every \<open>py\<close> holds for every release.
\<close>

record release =
  bracketed_netloc_ok :: "string \<Rightarrow> bool"
  slashes_without_netloc :: "string \<Rightarrow> string \<Rightarrow> bool"

datatype py_error = ValueError | ReError | RequestException

record ParseResult =
  p_scheme :: string
  p_netloc :: string
  p_path :: string
  p_params :: string
  p_query :: string
  p_fragment :: string

definition uses_netloc :: "string list" where
  "uses_netloc = ['''', ''ftp'', ''http'', ''gopher'', ''nntp'', ''telnet'',
     ''imap'', ''wais'', ''file'', ''mms'', ''https'', ''shttp'',
     ''snews'', ''prospero'', ''rtsp'', ''rtsps'', ''rtspu'', ''rsync'',
     ''svn'', ''svn+ssh'', ''sftp'', ''nfs'', ''git'', ''git+ssh'',
     ''ws'', ''wss'']"

definition uses_params :: "string list" where
  "uses_params = ['''', ''ftp'', ''hdl'', ''prospero'', ''http'', ''imap'',
     ''https'', ''shttp'', ''rtsp'', ''rtsps'', ''rtspu'', ''sip'',
     ''sips'', ''mms'', ''sftp'', ''tel'']"

definition is_scheme_char :: "char \<Rightarrow> bool" where
  "is_scheme_char c = (is_ascii_alpha c \<or> is_ascii_digit c \<or> c \<in> set ''+-.'')"

definition is_c0_or_space :: "char \<Rightarrow> bool" where
  "is_c0_or_space c = (code c \<le> 32)"

definition is_unsafe_byte :: "char \<Rightarrow> bool" where
  "is_unsafe_byte c = (code c = 9 \<or> code c = 13 \<or> code c = 10)"

definition is_hexdig :: "char \<Rightarrow> bool" where
  "is_hexdig c = (is_ascii_digit c \<or> (97 \<le> code c \<and> code c \<le> 102) \<or> (65 \<le> code c \<and> code c \<le> 70))"

text \<open>\<open>re.match(r"\Av[a-fA-F0-9]+\..+\Z", hostname)\<close>, for a hostname that starts with \<open>v\<close>:
  hexadecimal digits, a dot, and at least one more character, none of them a line feed.\<close>

definition ipvfuture_ok :: "string \<Rightarrow> bool" where
  "ipvfuture_ok h =
     (let digits = takeWhile is_hexdig (tl h); rest = dropWhile is_hexdig (tl h)
      in digits \<noteq> [] \<and> take 1 rest = ''.'' \<and> tl rest \<noteq> [] \<and> CHR 0x0A \<notin> set (tl rest))"

text \<open>\<open>_check_bracketed_host\<close>; \<open>ip6 h\<close> holds when \<open>ipaddress.ip_address(h)\<close> returns an
  IPv6 address.\<close>

definition check_bracketed_host :: "(string \<Rightarrow> bool) \<Rightarrow> string \<Rightarrow> bool" where
  "check_bracketed_host ip6 hostname =
     (if startswith hostname ''v'' then ipvfuture_ok hostname else ip6 hostname)"

text \<open>
  CPython 3.11.10: \<open>_check_bracketed_host(netloc.partition('[')[2].partition(']')[0])\<close>,
  and in \<open>urlunsplit\<close> the test \<open>(scheme and scheme in uses_netloc) or url[:2] == '//'\<close>.
\<close>

definition cpython_3_11 :: "(string \<Rightarrow> bool) \<Rightarrow> release" where
  "cpython_3_11 ip6 =
     \<lparr>bracketed_netloc_ok =
        (\<lambda>netloc. check_bracketed_host ip6
                     (takeWhile (\<lambda>c. c \<noteq> CHR '']'') (tl (dropWhile (\<lambda>c. c \<noteq> CHR ''['') netloc)))),
      slashes_without_netloc =
        (\<lambda>scheme url. (scheme \<noteq> [] \<and> scheme \<in> set uses_netloc) \<or> take 2 url = ''//'')\<rparr>"

text \<open>
  A release whose \<open>urlunsplit\<close> has the earlier test
  \<open>scheme and scheme in uses_netloc and url[:2] != '//'\<close>, with any verdict on bracketed
  network locations.
\<close>

definition earlier_urlunsplit :: "(string \<Rightarrow> bool) \<Rightarrow> release" where
  "earlier_urlunsplit accepts =
     \<lparr>bracketed_netloc_ok = accepts,
      slashes_without_netloc =
        (\<lambda>scheme url. scheme \<noteq> [] \<and> scheme \<in> set uses_netloc \<and> take 2 url \<noteq> ''//'')\<rparr>"

definition is_netloc_delim :: "char \<Rightarrow> bool" where
  "is_netloc_delim c = (c \<in> set ''/?#'')"

definition splitnetloc :: "string \<Rightarrow> string \<times> string" where
  "splitnetloc url =
     (takeWhile (\<lambda>c. \<not> is_netloc_delim c) (drop 2 url),
      dropWhile (\<lambda>c. \<not> is_netloc_delim c) (drop 2 url))"

definition split_scheme :: "string \<Rightarrow> string \<times> string" where
  "split_scheme url =
     (let pre = takeWhile (\<lambda>c. c \<noteq> CHR '':'') url
      in if CHR '':'' \<in> set url \<and> pre \<noteq> [] \<and> is_ascii_alpha (hd url) \<and> list_all is_scheme_char pre
         then (lower pre, drop (length pre + 1) url)
         else ('''', url))"

text \<open>The bracket checks of \<open>urlsplit\<close>: \<open>netloc_ok py netloc\<close> holds when they raise nothing.\<close>

definition netloc_ok :: "release \<Rightarrow> string \<Rightarrow> bool" where
  "netloc_ok py netloc =
     (if CHR ''['' \<in> set netloc \<and> CHR '']'' \<in> set netloc
      then bracketed_netloc_ok py netloc
      else CHR ''['' \<notin> set netloc \<and> CHR '']'' \<notin> set netloc)"

text \<open>
  \<open>unicodedata.normalize('NFKC', s)\<close> on a string of code points up to U+00FF: the
  result is the concatenation of the normal forms of the characters. Fourteen characters
  of that range are changed by NFKC; the result is a list of code points, which can lie
  beyond U+00FF.
\<close>

definition nfkc_char :: "char \<Rightarrow> nat list" where
  "nfkc_char c =
     (if code c = 0xA0 then [0x20]
      else if code c = 0xA8 then [0x20, 0x308]
      else if code c = 0xAA then [0x61]
      else if code c = 0xAF then [0x20, 0x304]
      else if code c = 0xB2 then [0x32]
      else if code c = 0xB3 then [0x33]
      else if code c = 0xB4 then [0x20, 0x301]
      else if code c = 0xB5 then [0x3BC]
      else if code c = 0xB8 then [0x20, 0x327]
      else if code c = 0xB9 then [0x31]
      else if code c = 0xBA then [0x6F]
      else if code c = 0xBC then [0x31, 0x2044, 0x34]
      else if code c = 0xBD then [0x31, 0x2044, 0x32]
      else if code c = 0xBE then [0x33, 0x2044, 0x34]
      else [code c])"

definition nfkc :: "string \<Rightarrow> nat list" where
  "nfkc s = concat (map nfkc_char s)"

text \<open>\<open>_checknetloc(netloc)\<close>: it returns nothing, or raises \<open>ValueError\<close>.\<close>

definition checknetloc :: "string \<Rightarrow> py_error + unit" where
  "checknetloc netloc =
     (if netloc = [] \<or> list_all (\<lambda>c. code c < 128) netloc then Inr ()
      else
        (let n = filter (\<lambda>c. c \<notin> set ''@:#?'') netloc;
             netloc2 = nfkc n
         in if map code n = netloc2 then Inr ()
            else if list_ex (\<lambda>c. code c \<in> set netloc2) ''/?#@:'' then Inl ValueError
            else Inr ()))"

text \<open>\<open>s.split(c, 1)\<close> when \<open>c\<close> occurs in \<open>s\<close>, and \<open>(s, '')\<close> otherwise.\<close>

definition split_first :: "char \<Rightarrow> string \<Rightarrow> string \<times> string" where
  "split_first c s = (takeWhile (\<lambda>x. x \<noteq> c) s, drop 1 (dropWhile (\<lambda>x. x \<noteq> c) s))"

definition urlsplit :: "release \<Rightarrow> string \<Rightarrow> py_error + (string \<times> string \<times> string \<times> string \<times> string)" where
  "urlsplit py url0 =
     (let url1 = filter (\<lambda>c. \<not> is_unsafe_byte c) (lstrip_by is_c0_or_space url0);
          (scheme, url2) = split_scheme url1;
          (netloc, url3) = (if take 2 url2 = ''//'' then splitnetloc url2 else ('''', url2))
      in if take 2 url2 = ''//'' \<and> \<not> netloc_ok py netloc then Inl ValueError
         else
           (let (url4, fragment) = split_first CHR ''#'' url3;
                (url5, query) = split_first CHR ''?'' url4
            in case checknetloc netloc of
                 Inl e \<Rightarrow> Inl e
               | Inr _ \<Rightarrow> Inr (scheme, netloc, url5, query, fragment)))"

text \<open>The text after the last \<open>/\<close> of a string, \<open>s[s.rfind('/') + 1:]\<close>.\<close>

definition last_segment :: "string \<Rightarrow> string" where
  "last_segment s = rev (takeWhile (\<lambda>c. c \<noteq> CHR ''/'') (rev s))"

definition splitparams :: "string \<Rightarrow> string \<times> string" where
  "splitparams url =
     (if CHR ''/'' \<in> set url
      then (let seg = last_segment url
            in if CHR '';'' \<notin> set seg then (url, '''')
               else (take (length url - length seg) url @ takeWhile (\<lambda>c. c \<noteq> CHR '';'') seg,
                     drop 1 (dropWhile (\<lambda>c. c \<noteq> CHR '';'') seg)))
      else split_first CHR '';'' url)"

definition urlparse :: "release \<Rightarrow> string \<Rightarrow> py_error + ParseResult" where
  "urlparse py url =
     (case urlsplit py url of
        Inl e \<Rightarrow> Inl e
      | Inr (scheme, netloc, url', query, fragment) \<Rightarrow>
          (let (url'', params) =
                 (if scheme \<in> set uses_params \<and> CHR '';'' \<in> set url' then splitparams url'
                  else (url', ''''))
           in Inr \<lparr>p_scheme = scheme, p_netloc = netloc, p_path = url'', p_params = params,
                   p_query = query, p_fragment = fragment\<rparr>))"

definition urlunsplit :: "release \<Rightarrow> string \<Rightarrow> string \<Rightarrow> string \<Rightarrow> string \<Rightarrow> string \<Rightarrow> string" where
  "urlunsplit py scheme netloc url query fragment =
     (let url1 = (if netloc \<noteq> [] \<or> slashes_without_netloc py scheme url
                  then ''//'' @ netloc @ (if url \<noteq> [] \<and> take 1 url \<noteq> ''/'' then ''/'' @ url else url)
                  else url);
          url2 = (if scheme \<noteq> [] then scheme @ '':'' @ url1 else url1);
          url3 = (if query \<noteq> [] then url2 @ ''?'' @ query else url2)
      in if fragment \<noteq> [] then url3 @ ''#'' @ fragment else url3)"

definition urlunparse :: "release \<Rightarrow> string \<Rightarrow> string \<Rightarrow> string \<Rightarrow> string \<Rightarrow> string \<Rightarrow> string \<Rightarrow> string" where
  "urlunparse py scheme netloc url params query fragment =
     urlunsplit py scheme netloc (if params \<noteq> [] then url @ '';'' @ params else url) query fragment"

section \<open>url_utils.py\<close>

definition normalize_url :: "release \<Rightarrow> string \<Rightarrow> bool \<Rightarrow> bool \<Rightarrow> bool \<Rightarrow> py_error + string" where
  "normalize_url py url prefer_https drop_fragment strip_trailing_slash =
     (case urlparse py (strip url) of
        Inl e \<Rightarrow> Inl e
      | Inr parsed \<Rightarrow>
          (let scheme0 = (if p_scheme parsed \<noteq> [] then p_scheme parsed else ''https'');
               scheme = (if prefer_https \<and> scheme0 \<in> {''http'', ''https''} then ''https'' else scheme0);
               netloc = lower (p_netloc parsed);
               path0 = (if p_path parsed \<noteq> [] then p_path parsed else ''/'');
               path = (if strip_trailing_slash \<and> path0 \<noteq> ''/'' \<and> endswith path0 ''/''
                       then rstrip_by (\<lambda>c. c = CHR ''/'') path0 else path0);
               fragment = (if drop_fragment then '''' else p_fragment parsed)
           in Inr (urlunparse py scheme netloc path (p_params parsed) (p_query parsed) fragment)))"

text \<open>\<open>urldefrag(url)[0]\<close>.\<close>

definition urldefrag :: "release \<Rightarrow> string \<Rightarrow> py_error + string" where
  "urldefrag py url =
     (if CHR ''#'' \<in> set url
      then (case urlparse py url of
              Inl e \<Rightarrow> Inl e
            | Inr p \<Rightarrow> Inr (urlunparse py (p_scheme p) (p_netloc p) (p_path p) (p_params p) (p_query p) ''''))
      else Inr url)"

definition SKIP_EXTENSIONS :: "string list" where
  "SKIP_EXTENSIONS = [''.pdf'', ''.png'', ''.jpg'', ''.jpeg'', ''.gif'', ''.webp'', ''.svg'', ''.ico'',
     ''.zip'', ''.rar'', ''.7z'', ''.gz'', ''.tgz'', ''.mp4'', ''.mov'', ''.avi'', ''.mp3'', ''.wav'',
     ''.woff'', ''.woff2'', ''.ttf'', ''.eot'']"

definition should_skip_by_extension :: "release \<Rightarrow> string \<Rightarrow> py_error + bool" where
  "should_skip_by_extension py url =
     (case urlparse py url of
        Inl e \<Rightarrow> Inl e
      | Inr p \<Rightarrow> Inr (list_ex (\<lambda>ext. endswith (lower (p_path p)) ext) SKIP_EXTENSIONS))"

definition is_same_root_domain :: "string \<Rightarrow> string \<Rightarrow> bool" where
  "is_same_root_domain host root_domain =
     (let h = lower host; r = lower root_domain
      in h \<noteq> [] \<and> r \<noteq> [] \<and> (h = r \<or> endswith h (''.'' @ r)))"

section \<open>crawler.py\<close>

definition crawler_is_allowed_domain :: "release \<Rightarrow> string \<Rightarrow> string set \<Rightarrow> py_error + bool" where
  "crawler_is_allowed_domain py url allowed_hosts =
     (case urlparse py url of
        Inl e \<Rightarrow> Inl e
      | Inr u \<Rightarrow> (let host = lower (p_netloc u) in Inr (host \<noteq> [] \<and> host \<in> allowed_hosts)))"

definition get_url_priority :: "release \<Rightarrow> string \<Rightarrow> py_error + int" where
  "get_url_priority py url =
     (case urlparse py url of
        Inl e \<Rightarrow> Inl e
      | Inr p \<Rightarrow>
          (let path = lower (p_path p)
           in if list_ex (contains path)
                   [''/products'', ''/pricing'', ''/docs'', ''/documentation'', ''/features'',
                    ''/solutions'', ''/api'', ''/guides'', ''/blog'']
              then Inr 3
              else if list_ex (contains path)
                   [''/resources'', ''/case-studies'', ''/about'', ''/contact'', ''/help'', ''/faq'',
                    ''/integrations'']
              then Inr 2
              else if list_ex (contains path)
                   [''/careers'', ''/jobs'', ''/press'', ''/news'', ''/legal'', ''/privacy'', ''/terms'',
                    ''/cookies'']
              then Inr 0
              else Inr 1))"

text \<open>
  What \<open>session.get(current, timeout=20)\<close> does on one attempt: it raises an exception
  (\<open>Raises msg\<close>, \<open>msg\<close> the \<open>str()\<close> of the exception) or returns a response. Of a response
  the crawler reads the status code, the headers \<open>Retry-After\<close> and \<open>Content-Type\<close>, and the
  body. \<open>http_error\<close> is the \<open>str()\<close> of the \<open>HTTPError\<close> that \<open>raise_for_status()\<close> raises when
  the status is in 400..599. \<open>links\<close> stands for the body: the values
  \<open>urljoin(current, href)\<close> for the \<open>href\<close> in \<open>parser.links\<close>, in the iteration order of that
  set, and \<open>None\<close> when \<open>parser.feed\<close> raises.
  A server gives the outcome of the n-th attempt (from 0) on a URL; within one crawl a URL
  is fetched in one run of the retry loop only, because of the visited set.
\<close>

record response =
  status_code :: int
  retry_after :: "string option"
  content_type :: "string option"
  http_error :: string
  links :: "string list option"

datatype fetch_outcome = Raises string | Responds response

type_synonym server = "string \<Rightarrow> nat \<Rightarrow> fetch_outcome"

text \<open>
  The calls that the crawler makes to the outside, in order: \<open>session.get\<close> and the four
  \<open>time.sleep\<close> call sites (the politeness delay, and the back-off after a 429, after a
  retried 5xx and after an exception, each with the attempt number). The sleeps are
  taken to return; their durations are not modelled.
\<close>

datatype event =
    PoliteSleep
  | Get string
  | Backoff429 nat "string option"
  | Backoff5xx nat
  | BackoffError nat

record failed_url =
  failed_url :: string
  failed_error :: string
  failed_status_code :: "int option"

text \<open>
  The \<open>for attempt in range(max_retries + 1)\<close> loop: \<open>k\<close> attempts remain, \<open>resp\<close> and
  \<open>last_err\<close> are the loop's variables. When the range is exhausted, \<open>resp\<close> keeps the
  value of the last assignment.
\<close>

fun retry_loop :: "server \<Rightarrow> bool \<Rightarrow> string \<Rightarrow> int \<Rightarrow> nat \<Rightarrow> nat \<Rightarrow> response option \<Rightarrow> string option
                   \<Rightarrow> event list \<Rightarrow> response option \<times> string option \<times> event list" where
  "retry_loop srv delay current max_retries 0 attempt resp last_err evs = (resp, last_err, evs)"
| "retry_loop srv delay current max_retries (Suc k) attempt resp last_err evs =
     (let evs1 = (if delay then evs @ [PoliteSleep] else evs) @ [Get current]
      in case srv current attempt of
           Raises msg \<Rightarrow>
             (if int attempt \<ge> max_retries then (None, Some msg, evs1)
              else retry_loop srv delay current max_retries k (Suc attempt) resp (Some msg)
                     (evs1 @ [BackoffError attempt]))
         | Responds r \<Rightarrow>
             (if status_code r = 404 then (None, last_err, evs1)
              else if status_code r = 429
              then retry_loop srv delay current max_retries k (Suc attempt) (Some r) last_err
                     (evs1 @ [Backoff429 attempt (retry_after r)])
              else if status_code r \<in> {500, 502, 503, 504, 520}
              then retry_loop srv delay current max_retries k (Suc attempt) (Some r) last_err
                     (evs1 @ [Backoff5xx attempt])
              else if 400 \<le> status_code r \<and> status_code r < 600
              then (if int attempt \<ge> max_retries then (None, Some (http_error r), evs1)
                    else retry_loop srv delay current max_retries k (Suc attempt) (Some r)
                           (Some (http_error r)) (evs1 @ [BackoffError attempt]))
              else (Some r, last_err, evs1)))"

definition fetch_with_retry :: "server \<Rightarrow> bool \<Rightarrow> string \<Rightarrow> int \<Rightarrow> response option \<times> string option \<times> event list" where
  "fetch_with_retry srv delay current max_retries =
     retry_loop srv delay current max_retries (nat (max_retries + 1)) 0 None None []"

text \<open>The status code that the crawler reads off the error message of a failed URL.\<close>

definition infer_status_code :: "string \<Rightarrow> int option" where
  "infer_status_code error_msg =
     (if contains error_msg ''404'' then Some 404
      else if contains error_msg ''403'' then Some 403
      else if contains error_msg ''500'' then Some 500
      else if contains error_msg ''502'' then Some 502
      else if contains error_msg ''503'' then Some 503
      else None)"

text \<open>
  The arguments of \<open>crawl_site\<close> that stay fixed during the crawl, and the state of its
  \<open>while\<close> loop. The heap \<open>queue\<close> is kept as the sorted list of its entries
  \<open>(-priority, counter, url, depth)\<close>: \<open>heappush\<close> is \<open>insort\<close>, \<open>heappop\<close> takes the head.
  \<open>failed_urls\<close> is the caller's failure sink, \<open>None\<close> when none was supplied; \<open>events\<close> is
  the record of the calls made so far.
\<close>

record crawl_args =
  max_urls :: int
  max_depth :: int
  root_domain :: "string option"
  allow_same_root_subdomains :: bool
  polite :: bool
  request_delay_s :: rat
  max_retries :: int

record crawl_state =
  visited :: "string set"
  results :: "string list"
  queue :: "(int \<times> nat \<times> string \<times> int) list"
  counter :: nat
  dynamic_allowed_hosts :: "string set"
  failed_urls :: "failed_url list option"
  events :: "event list"

definition root_domain_given :: "crawl_args \<Rightarrow> string \<Rightarrow> bool" where
  "root_domain_given args host =
     (allow_same_root_subdomains args \<and>
      (case root_domain args of None \<Rightarrow> False
       | Some r \<Rightarrow> r \<noteq> [] \<and> is_same_root_domain host r))"

text \<open>The \<open>for href in parser.links\<close> loop, at a page of depth \<open>depth\<close>.\<close>

fun enqueue_links :: "release \<Rightarrow> crawl_args \<Rightarrow> int \<Rightarrow> string list \<Rightarrow> crawl_state \<Rightarrow> py_error + crawl_state" where
  "enqueue_links py args depth [] st = Inr st"
| "enqueue_links py args depth (joined # rest) st =
     (case urldefrag py joined of
        Inl e \<Rightarrow> Inl e
      | Inr defragged \<Rightarrow>
     (case normalize_url py defragged True True True of
        Inl e \<Rightarrow> Inl e
      | Inr abs_url \<Rightarrow>
     (case should_skip_by_extension py abs_url of
        Inl e \<Rightarrow> Inl e
      | Inr True \<Rightarrow> enqueue_links py args depth rest st
      | Inr False \<Rightarrow>
     (case urlparse py abs_url of
        Inl e \<Rightarrow> Inl e
      | Inr parsed \<Rightarrow>
          (let host = lower (p_netloc parsed);
               st1 = (if root_domain_given args host
                      then st\<lparr>dynamic_allowed_hosts := insert host (dynamic_allowed_hosts st)\<rparr>
                      else st)
           in if abs_url \<in> visited st1 then enqueue_links py args depth rest st1
              else
                (case crawler_is_allowed_domain py abs_url (dynamic_allowed_hosts st1) of
                   Inl e \<Rightarrow> Inl e
                 | Inr False \<Rightarrow> enqueue_links py args depth rest st1
                 | Inr True \<Rightarrow>
                     (if int (length (results st1)) < max_urls args
                      then (case get_url_priority py abs_url of
                              Inl e \<Rightarrow> Inl e
                            | Inr priority \<Rightarrow>
                                enqueue_links py args depth rest
                                  (st1\<lparr>queue := insort (- priority, counter st1, abs_url, depth + 1) (queue st1),
                                       counter := counter st1 + 1\<rparr>))
                      else enqueue_links py args depth rest st1)))))))"

text \<open>What the crawler does with the response of a successful fetch.\<close>

definition handle_response :: "release \<Rightarrow> crawl_args \<Rightarrow> string \<Rightarrow> int \<Rightarrow> response \<Rightarrow> crawl_state
                               \<Rightarrow> py_error + crawl_state" where
  "handle_response py args current depth resp st =
     (let ctype = lower (case content_type resp of None \<Rightarrow> '''' | Some c \<Rightarrow> c)
      in if contains ctype ''text/html'' \<or> contains ctype ''application/xhtml+xml'' \<or> ctype = ''''
         then (let st1 = st\<lparr>results := results st @ [current]\<rparr>
               in if depth \<ge> max_depth args then Inr st1
                  else (case links resp of
                          None \<Rightarrow> Inr st1
                        | Some hrefs \<Rightarrow> enqueue_links py args depth hrefs st1))
         else Inr st)"

text \<open>The failure record of a URL whose fetch ended with \<open>resp is None\<close>.\<close>

definition record_failure :: "string \<Rightarrow> string option \<Rightarrow> crawl_state \<Rightarrow> crawl_state" where
  "record_failure current last_err st =
     (case failed_urls st of
        None \<Rightarrow> st
      | Some sink \<Rightarrow>
          (let error_msg = (case last_err of None \<Rightarrow> ''None'' | Some m \<Rightarrow> m)
           in st\<lparr>failed_urls := Some (sink @ [\<lparr>failed_url = current, failed_error = error_msg,
                                               failed_status_code = infer_status_code error_msg\<rparr>])\<rparr>))"

text \<open>One pass through the body of the \<open>while\<close> loop, from a state whose queue is not empty.\<close>

definition crawl_iteration :: "release \<Rightarrow> server \<Rightarrow> crawl_args \<Rightarrow> crawl_state \<Rightarrow> py_error + crawl_state" where
  "crawl_iteration py srv args st0 =
     (case queue st0 of
        [] \<Rightarrow> Inr st0
      | (neg_priority, seq, current, depth) # remaining \<Rightarrow>
          (let st = st0\<lparr>queue := remaining\<rparr>
           in if current \<in> visited st then Inr st
              else
                (let st1 = st\<lparr>visited := insert current (visited st)\<rparr>
                 in case urlparse py current of
                      Inl e \<Rightarrow> Inl e
                    | Inr current_parsed \<Rightarrow>
                        (let current_host = lower (p_netloc current_parsed)
                         in case crawler_is_allowed_domain py current (dynamic_allowed_hosts st1) of
                              Inl e \<Rightarrow> Inl e
                            | Inr allowed \<Rightarrow>
                                if \<not> allowed \<and> \<not> root_domain_given args current_host then Inr st1
                                else
                                  (let st2 = (if allowed then st1
                                              else st1\<lparr>dynamic_allowed_hosts :=
                                                        insert current_host (dynamic_allowed_hosts st1)\<rparr>)
                                   in case should_skip_by_extension py current of
                                        Inl e \<Rightarrow> Inl e
                                      | Inr True \<Rightarrow> Inr st2
                                      | Inr False \<Rightarrow>
                                          (case fetch_with_retry srv (polite args \<and> request_delay_s args > 0)
                                                  current (max_retries args) of
                                             (resp, last_err, evs) \<Rightarrow>
                                               (let st3 = st2\<lparr>events := events st2 @ evs\<rparr>
                                                in case resp of
                                                     None \<Rightarrow> Inr (record_failure current last_err st3)
                                                   | Some r \<Rightarrow> handle_response py args current depth r st3)))))))"

text \<open>
  The \<open>while queue and len(results) < max_urls\<close> loop. \<open>fuel\<close> bounds the number of
  iterations; \<open>None\<close> means that the bound was reached with the loop still running.
\<close>

fun crawl_loop :: "nat \<Rightarrow> release \<Rightarrow> server \<Rightarrow> crawl_args \<Rightarrow> crawl_state \<Rightarrow> (py_error + crawl_state) option" where
  "crawl_loop fuel py srv args st =
     (if queue st = [] \<or> \<not> int (length (results st)) < max_urls args then Some (Inr st)
      else (case fuel of
              0 \<Rightarrow> None
            | Suc n \<Rightarrow>
                (case crawl_iteration py srv args st of
                   Inl e \<Rightarrow> Some (Inl e)
                 | Inr st' \<Rightarrow> crawl_loop n py srv args st')))"

text \<open>
  \<open>crawl_site\<close>; the result is the final state of the loop, whose \<open>results\<close> field is
  the list that \<open>crawl_site\<close> returns and whose \<open>failed_urls\<close> field is the caller's sink.
\<close>

definition crawl_site :: "nat \<Rightarrow> release \<Rightarrow> server \<Rightarrow> string \<Rightarrow> string set \<Rightarrow> crawl_args
                          \<Rightarrow> failed_url list option \<Rightarrow> (py_error + crawl_state) option" where
  "crawl_site fuel py srv start_url allowed_hosts args sink =
     (case urldefrag py start_url of
        Inl e \<Rightarrow> Some (Inl e)
      | Inr defragged \<Rightarrow>
     (case normalize_url py defragged True True True of
        Inl e \<Rightarrow> Some (Inl e)
      | Inr start \<Rightarrow>
     (case get_url_priority py start of
        Inl e \<Rightarrow> Some (Inl e)
      | Inr start_priority \<Rightarrow>
          crawl_loop fuel py srv args
            \<lparr>visited = {}, results = [], queue = [(- start_priority, 0, start, 0)], counter = 1,
             dynamic_allowed_hosts = lower ` {h \<in> allowed_hosts. h \<noteq> []},
             failed_urls = sink, events = []\<rparr>)))"

section \<open>sitemap.py: the final pass of the Source Collector\<close>

text \<open>\<open>_is_allowed_domain(config, url)\<close> of sitemap.py; \<open>allowed_domains\<close> is
  \<open>config.site.allowed_domains\<close>.\<close>

definition sitemap_is_allowed_domain :: "release \<Rightarrow> string list \<Rightarrow> string \<Rightarrow> py_error + bool" where
  "sitemap_is_allowed_domain py allowed_domains url =
     (case urlparse py url of
        Inl e \<Rightarrow> Inl e
      | Inr u \<Rightarrow>
          (let host = lower (p_netloc u)
           in if host = [] then Inr False else Inr (host \<in> set allowed_domains)))"

text \<open>
  The last loop of \<open>collect_urls_from_sources\<close> (the de-duplication over \<open>collected\<close>):
  \<open>unique\<close> and \<open>normalized_seen\<close> are the loop's two accumulators, \<open>global_max\<close> is
  \<open>config.filters.max_urls\<close>. The \<open>break\<close> is tested after each URL of an allowed domain.
\<close>

fun dedup_loop :: "release \<Rightarrow> string list \<Rightarrow> int \<Rightarrow> string list \<Rightarrow> string list \<Rightarrow> string set
                   \<Rightarrow> py_error + string list" where
  "dedup_loop py allowed_domains global_max [] unique normalized_seen = Inr unique"
| "dedup_loop py allowed_domains global_max (u # rest) unique normalized_seen =
     (case sitemap_is_allowed_domain py allowed_domains u of
        Inl e \<Rightarrow> Inl e
      | Inr False \<Rightarrow> dedup_loop py allowed_domains global_max rest unique normalized_seen
      | Inr True \<Rightarrow>
          (case normalize_url py u True True True of
             Inl e \<Rightarrow> Inl e
           | Inr normalized \<Rightarrow>
               (let unique' = (if normalized \<notin> normalized_seen then unique @ [normalized] else unique);
                    seen' = (if normalized \<notin> normalized_seen then insert normalized normalized_seen
                             else normalized_seen)
                in if int (length unique') \<ge> global_max then Inr unique'
                   else dedup_loop py allowed_domains global_max rest unique' seen')))"

definition dedup_collected :: "release \<Rightarrow> string list \<Rightarrow> int \<Rightarrow> string list \<Rightarrow> py_error + string list" where
  "dedup_collected py allowed_domains global_max collected =
     dedup_loop py allowed_domains global_max collected [] {}"

section \<open>sitemap.py: reading sitemaps\<close>

text \<open>
  A sitemap document as \<open>ET.fromstring\<close> sees it: text that does not parse, or a root
  element with its tag, the \<open>text\<close> of the elements that \<open>.//{*}url/{*}loc\<close> finds and the
  \<open>text\<close> of those that \<open>.//{*}sitemap/{*}loc\<close> finds (\<open>None\<close> for an element without
  text). The site is the list of the documents it serves; \<open>_fetch_xml\<close> raises on every
  other URL (status not 2xx, timeout, transport error).
\<close>

datatype etree = XmlParseError | XmlRoot string "string option list" "string option list"

type_synonym sitemap_site = "(string \<times> etree) list"

definition fetch_xml :: "sitemap_site \<Rightarrow> string \<Rightarrow> py_error + etree" where
  "fetch_xml site url = (case map_of site url of None \<Rightarrow> Inl RequestException | Some doc \<Rightarrow> Inr doc)"

definition loc_texts :: "string option list \<Rightarrow> string list" where
  "loc_texts els = concat (map (\<lambda>t. case t of None \<Rightarrow> [] | Some x \<Rightarrow> if x = [] then [] else [strip x]) els)"

fun parse_sitemap_xml :: "etree \<Rightarrow> string list" where
  "parse_sitemap_xml XmlParseError = []"
| "parse_sitemap_xml (XmlRoot root_tag url_locs sitemap_locs) =
     (let tag = lower root_tag
      in if endswith tag ''urlset'' then loc_texts url_locs
         else if endswith tag ''sitemapindex'' then loc_texts sitemap_locs
         else [])"

text \<open>
  \<open>_expand_sitemap_index(url, session, seen)\<close> and its \<open>for c in candidates\<close> loop.
  \<open>fuel\<close> bounds the depth of the recursion; \<open>None\<close> means that the bound was reached.
  The result is the exception raised, or the list returned with the set \<open>seen\<close> as the
  call leaves it.
\<close>

fun expand_sitemap_index :: "nat \<Rightarrow> sitemap_site \<Rightarrow> string \<Rightarrow> string set
                             \<Rightarrow> (py_error + string list \<times> string set) option"
and expand_candidates :: "nat \<Rightarrow> sitemap_site \<Rightarrow> string list \<Rightarrow> string list \<Rightarrow> string set
                             \<Rightarrow> (py_error + string list \<times> string set) option" where
  "expand_sitemap_index 0 site url seen = None"
| "expand_sitemap_index (Suc n) site url seen =
     (if url \<in> seen then Some (Inr ([], seen))
      else (case fetch_xml site url of
              Inl e \<Rightarrow> Some (Inl e)
            | Inr xml \<Rightarrow> expand_candidates n site (parse_sitemap_xml xml) [] (insert url seen)))"
| "expand_candidates n site [] urls seen = Some (Inr (urls, seen))"
| "expand_candidates n site (c # cs) urls seen =
     (if endswith c ''.xml''
      then (case expand_sitemap_index n site c seen of
              None \<Rightarrow> None
            | Some (Inl e) \<Rightarrow> Some (Inl e)
            | Some (Inr (sub, seen')) \<Rightarrow> expand_candidates n site cs (urls @ sub) seen')
      else expand_candidates n site cs (urls @ [c]) seen)"





text \<open>
  \<open>_collect_from_sitemap_source(src, config, session, seen)\<close>, with \<open>src_url\<close> for
  \<open>src.url\<close>. Its loop over \<open>urls\<close> has the body of the loop of \<open>_expand_sitemap_index\<close>.
\<close>

definition collect_from_sitemap_source :: "nat \<Rightarrow> sitemap_site \<Rightarrow> string \<Rightarrow> string set
                                            \<Rightarrow> (py_error + string list \<times> string set) option" where
  "collect_from_sitemap_source fuel site src_url seen =
     (case fetch_xml site src_url of
        Inl e \<Rightarrow> Some (Inr ([], seen))
      | Inr xml \<Rightarrow>
          (let urls = parse_sitemap_xml xml
           in if list_ex (\<lambda>u. endswith u ''.xml'') urls then expand_candidates fuel site urls [] seen
              else Some (Inr (urls, seen))))"

section \<open>filters.py\<close>

text \<open>
  \<open>re.search(pattern, path) is not None\<close> is the parameter \<open>re_search\<close> of the classifier:
  \<open>re_search pattern path\<close> is \<open>None\<close> when \<open>pattern\<close> does not compile (\<open>re.error\<close>), and
  otherwise tells whether the pattern matches somewhere in \<open>path\<close>. The three fixed
  patterns of the module are written out as functions.
\<close>

record FilterRule =
  pattern :: string
  rule_group :: "string option"
  rule_priority :: int

record SiteConfig =
  base_url :: string
  default_language :: string

text \<open>The fields \<open>include\<close> and \<open>exclude\<close> of \<open>FiltersConfig\<close> are \<open>include_rules\<close> and \<open>exclude_rules\<close> here.\<close>

record FiltersConfig =
  include_rules :: "FilterRule list"
  exclude_rules :: "FilterRule list"
  auto_group :: bool
  use_default_excludes :: bool
  auto_filter_languages :: bool

record AppConfig =
  site :: SiteConfig
  filters :: FiltersConfig

definition relative_path :: "release \<Rightarrow> string \<Rightarrow> string \<Rightarrow> py_error + string" where
  "relative_path py base url =
     (case urlparse py base of
        Inl e \<Rightarrow> Inl e
      | Inr b \<Rightarrow>
          (case urlparse py url of
             Inl e \<Rightarrow> Inl e
           | Inr u \<Rightarrow> Inr (if p_path u \<noteq> [] then p_path u else ''/'')))"

text \<open>The tail \<open>(?:[-_][a-zA-Z]{2})?/\<close> of the two language patterns, at the start of a string.\<close>

definition region_then_slash :: "string \<Rightarrow> bool" where
  "region_then_slash r =
     (startswith r ''/'' \<or>
      (case r of
         sep # x # y # sl # _ \<Rightarrow> sep \<in> set ''-_'' \<and> is_ascii_alpha x \<and> is_ascii_alpha y \<and> sl = CHR ''/''
       | _ \<Rightarrow> False))"

text \<open>A match of \<open>/([a-z]{2})(?:[-_][a-zA-Z]{2})?/\<close> at the start of a string: its group 1.\<close>

fun lang_at :: "string \<Rightarrow> string option" where
  "lang_at (s # a # b # rest) =
     (if s = CHR ''/'' \<and> is_ascii_lower a \<and> is_ascii_lower b \<and> region_then_slash rest
      then Some [a, b] else None)"
| "lang_at _ = None"

text \<open>The leftmost match of that pattern anywhere in the string.\<close>

fun search_lang :: "string \<Rightarrow> string option" where
  "search_lang [] = None"
| "search_lang (c # s) = (case lang_at (c # s) of Some l \<Rightarrow> Some l | None \<Rightarrow> search_lang s)"

definition detect_language_prefix :: "string \<Rightarrow> string option" where
  "detect_language_prefix path =
     (case lang_at path of
        Some l \<Rightarrow> Some (lower l)
      | None \<Rightarrow> (case search_lang path of Some l \<Rightarrow> Some (lower l) | None \<Rightarrow> None))"

definition match_rule :: "(string \<Rightarrow> string \<Rightarrow> bool option) \<Rightarrow> string \<Rightarrow> FilterRule \<Rightarrow> py_error + bool" where
  "match_rule re_search path r =
     (case re_search (pattern r) path of None \<Rightarrow> Inl ReError | Some b \<Rightarrow> Inr b)"

text \<open>\<open>re.match(r"^[a-z]{2}(?:[-_][a-zA-Z]{2})?$", first)\<close>; \<open>$\<close> also matches before a
  line feed that ends the string.\<close>

definition lang_code_core :: "string \<Rightarrow> bool" where
  "lang_code_core s =
     (case s of
        [a, b] \<Rightarrow> is_ascii_lower a \<and> is_ascii_lower b
      | [a, b, sep, x, y] \<Rightarrow>
          is_ascii_lower a \<and> is_ascii_lower b \<and> sep \<in> set ''-_'' \<and> is_ascii_alpha x \<and> is_ascii_alpha y
      | _ \<Rightarrow> False)"

definition is_lang_code :: "string \<Rightarrow> bool" where
  "is_lang_code s = (lang_code_core s \<or> (s \<noteq> [] \<and> last s = CHR 0x0A \<and> lang_code_core (butlast s)))"

text \<open>
  \<open>str.title()\<close>: a character that follows a cased character is lower-cased, any other
  is title-cased. The title case of two Latin-1 letters (0xB5 and 0xFF) lies beyond code
  point 255; they are left as they are.
\<close>

definition is_cased :: "char \<Rightarrow> bool" where
  "is_cased c = (is_ascii_alpha c \<or> code c = 170 \<or> code c = 181 \<or> code c = 186
                 \<or> (192 \<le> code c \<and> code c \<noteq> 215 \<and> code c \<noteq> 247))"

definition title_char :: "char \<Rightarrow> string" where
  "title_char c =
     (if is_ascii_lower c \<or> (224 \<le> code c \<and> code c \<le> 254 \<and> code c \<noteq> 247)
      then [char_of (code c - 32)]
      else if code c = 223 then ''Ss'' else [c])"

fun title_from :: "bool \<Rightarrow> string \<Rightarrow> string" where
  "title_from previous_is_cased [] = []"
| "title_from previous_is_cased (c # s) =
     (if previous_is_cased then [lower_char c] else title_char c) @ title_from (is_cased c) s"

definition title :: "string \<Rightarrow> string" where
  "title s = title_from False s"

definition segments :: "string \<Rightarrow> string list" where
  "segments path = filter (\<lambda>seg. seg \<noteq> []) (split_on CHR ''/'' path)"

definition auto_group_from_path :: "string \<Rightarrow> string" where
  "auto_group_from_path path =
     (if path = ''/'' then ''Home''
      else (let segs = segments path
            in if segs = [] then ''Other''
               else
                 (let first0 = lower (hd segs);
                      first = (if is_lang_code first0 \<and> length segs > 1 then lower (segs ! 1)
                               else lower (hd segs))
                  in if first \<in> set [''blog'', ''blogs'', ''article'', ''articles'', ''post'', ''posts'']
                     then ''Blog''
                     else if first \<in> set [''doc'', ''docs'', ''documentation'', ''help'', ''guide'',
                                           ''guides'', ''developers'', ''developer'']
                     then ''Docs''
                     else if first \<in> set [''product'', ''products'', ''solution'', ''solutions'']
                     then ''Products''
                     else if first \<in> set [''pricing'', ''price'', ''prices'', ''plan'', ''plans'']
                     then ''Pricing''
                     else if first \<in> set [''about'', ''about-us'', ''company''] then ''About''
                     else if first \<in> set [''contact'', ''support'', ''help''] then ''Support''
                     else if first \<in> set [''case'', ''cases'', ''use-case'', ''use-cases'']
                     then ''Use Cases''
                     else if first \<in> set [''integration'', ''integrations'', ''resource'', ''resources'']
                     then ''Integrations''
                     else if first \<in> set [''location'', ''locations'', ''proxy-location'',
                                           ''proxy-locations'']
                     then ''Proxy Locations''
                     else if first \<in> set [''legal'', ''privacy'', ''terms'', ''policy'', ''policies'']
                     then ''Legal''
                     else if first \<in> set [''career'', ''careers'', ''jobs'', ''hiring''] then ''Careers''
                     else if first \<in> set [''press'', ''news'', ''newsroom'', ''media''] then ''Press''
                     else if first \<in> set [''affiliate'', ''affiliates'', ''partner'', ''partners'']
                     then ''Partners''
                     else if first \<in> set [''dataset'', ''datasets'', ''data''] then ''Datasets''
                     else if first \<in> set [''serp'', ''search''] then ''SERP''
                     else if first \<in> set [''scraper'', ''scrapers'', ''scraping''] then ''Scrapers''
                     else if first \<in> set [''proxy'', ''proxies''] then ''Proxies''
                     else (let name = title (strip (map (\<lambda>c. if c = CHR ''-'' then CHR '' '' else c) first))
                           in if name \<noteq> [] then name else ''Other''))))"

definition base_group_weight :: "string \<Rightarrow> int" where
  "base_group_weight g =
     (let key = lower g
      in if key = ''home'' then 40
         else if key \<in> set [''products'', ''product''] then 35
         else if key \<in> set [''pricing''] then 30
         else if key \<in> set [''docs'', ''documentation''] then 28
         else if key \<in> set [''proxies'', ''proxy''] then 27
         else if key \<in> set [''scrapers'', ''scraper'', ''scraping''] then 26
         else if key \<in> set [''blog'', ''blogs''] then 25
         else if key \<in> set [''serp''] then 24
         else if key \<in> set [''use cases'', ''usecases''] then 24
         else if key \<in> set [''integrations'', ''integration''] then 24
         else if key \<in> set [''datasets'', ''dataset''] then 23
         else if key \<in> set [''proxy locations'', ''locations''] then 22
         else if key \<in> set [''about'', ''about us''] then 20
         else if key \<in> set [''partners'', ''affiliates''] then 19
         else if key \<in> set [''legal''] then 18
         else if key \<in> set [''press'', ''news''] then 17
         else if key \<in> set [''careers''] then 15
         else 10)"

definition compute_score :: "string \<Rightarrow> int \<Rightarrow> string \<Rightarrow> int" where
  "compute_score g prio path =
     (let depth = max (int (length (segments path)) - 1) 0;
          base_score = base_group_weight g;
          priority_weight = (if prio > 0 then prio * 2 else 0);
          depth_penalty = depth * 2;
          score0 = base_score + priority_weight - depth_penalty;
          score1 = (if path = ''/'' \<or> path = '''' then score0 + 10 else score0)
      in max 0 (min 200 score1))"

definition default_exclude_rules :: "FilterRule list" where
  "default_exclude_rules =
     map (\<lambda>p. \<lparr>pattern = p, rule_group = None, rule_priority = 0\<rparr>)
       [''/wp-admin/'', ''/wp-json/'', ''/search'', ''[?&]s='',
        ''[?&]page='' @ [CHR 0x5C] @ ''d+'',
        ''/page/'' @ [CHR 0x5C] @ ''d+/?$'',
        ''/tag/'', ''/category/'', ''/feed/?$'',
        [CHR 0x5C] @ ''.xml$'', [CHR 0x5C] @ ''.rss$'', ''/404'']"

text \<open>\<open>any(_match_rule(path, r) for r in rules)\<close>: it stops at the first match, and at the
  first pattern that does not compile.\<close>

fun any_match :: "(string \<Rightarrow> string \<Rightarrow> bool option) \<Rightarrow> string \<Rightarrow> FilterRule list \<Rightarrow> py_error + bool" where
  "any_match re_search path [] = Inr False"
| "any_match re_search path (r # rs) =
     (case match_rule re_search path r of
        Inl e \<Rightarrow> Inl e
      | Inr True \<Rightarrow> Inr True
      | Inr False \<Rightarrow> any_match re_search path rs)"

definition exact_anchored :: "FilterRule \<Rightarrow> bool" where
  "exact_anchored r = (startswith (pattern r) ''^'' \<and> endswith (pattern r) ''$'')"

text \<open>\<open>any(_match_rule(path, r) and (r.pattern.startswith("^") and r.pattern.endswith("$"))
  for r in exclude_rules)\<close>.\<close>

fun any_exact_match :: "(string \<Rightarrow> string \<Rightarrow> bool option) \<Rightarrow> string \<Rightarrow> FilterRule list \<Rightarrow> py_error + bool" where
  "any_exact_match re_search path [] = Inr False"
| "any_exact_match re_search path (r # rs) =
     (case match_rule re_search path r of
        Inl e \<Rightarrow> Inl e
      | Inr m \<Rightarrow> if m \<and> exact_anchored r then Inr True else any_exact_match re_search path rs)"

text \<open>The first include rule that matches: the \<open>for r in include_rules\<close> loop with \<open>break\<close>.\<close>

fun first_match :: "(string \<Rightarrow> string \<Rightarrow> bool option) \<Rightarrow> string \<Rightarrow> FilterRule list \<Rightarrow> py_error + FilterRule option" where
  "first_match re_search path [] = Inr None"
| "first_match re_search path (r # rs) =
     (case match_rule re_search path r of
        Inl e \<Rightarrow> Inl e
      | Inr True \<Rightarrow> Inr (Some r)
      | Inr False \<Rightarrow> first_match re_search path rs)"

text \<open>The value of \<open>excluded\<close> for a path; \<open>incl\<close> and \<open>excl\<close> are the local lists
  \<open>include_rules\<close> and \<open>exclude_rules\<close> of \<open>filter_and_group_urls\<close>.\<close>

definition is_excluded :: "(string \<Rightarrow> string \<Rightarrow> bool option) \<Rightarrow> FilterRule list \<Rightarrow> FilterRule list \<Rightarrow> string
                           \<Rightarrow> py_error + bool" where
  "is_excluded re_search incl excl path =
     (if excl = [] then Inr False
      else (case any_match re_search path incl of
              Inl e \<Rightarrow> Inl e
            | Inr has_include_match \<Rightarrow>
                if has_include_match then any_exact_match re_search path excl
                else any_match re_search path excl))"

text \<open>The group of a URL that no include rule matches, when auto-grouping is on.\<close>

definition auto_group_of :: "release \<Rightarrow> string \<Rightarrow> string \<Rightarrow> py_error + string" where
  "auto_group_of py u path =
     (case urlparse py u of
        Inl e \<Rightarrow> Inl e
      | Inr parsed \<Rightarrow>
          (let host = lower (p_netloc parsed)
           in if path = ''/'' \<or> strip_by (\<lambda>c. c = CHR ''/'') path = []
              then (if contains host ''blog'' \<or> contains path ''/blog'' then Inr ''Blog''
                    else if contains host ''doc'' \<or> contains host ''developer'' \<or> contains host ''developers''
                    then Inr ''Docs''
                    else Inr ''Home'')
              else Inr (auto_group_from_path path)))"

record PageEntry =
  url :: string
  path :: string
  group :: string
  priority :: int
  score :: int

text \<open>The body of the \<open>for u in urls\<close> loop: the entry appended for \<open>u\<close>, or \<open>None\<close> when
  the loop moves on without one.\<close>

definition classify_url :: "release \<Rightarrow> (string \<Rightarrow> string \<Rightarrow> bool option) \<Rightarrow> AppConfig \<Rightarrow> FilterRule list
                            \<Rightarrow> string \<Rightarrow> py_error + PageEntry option" where
  "classify_url py re_search config excl u =
     (case relative_path py (base_url (site config)) u of
        Inl e \<Rightarrow> Inl e
      | Inr pth \<Rightarrow>
          (let default_lang = lower (if default_language (site config) \<noteq> []
                                     then default_language (site config) else ''en'');
               lang_prefix = detect_language_prefix pth
           in if auto_filter_languages (filters config) \<and> lang_prefix \<noteq> None
                 \<and> lang_prefix \<noteq> Some [] \<and> lang_prefix \<noteq> Some default_lang
              then Inr None
              else
                (case is_excluded re_search (include_rules (filters config)) excl pth of
                   Inl e \<Rightarrow> Inl e
                 | Inr True \<Rightarrow> Inr None
                 | Inr False \<Rightarrow>
                     (case first_match re_search pth (include_rules (filters config)) of
                        Inl e \<Rightarrow> Inl e
                      | Inr (Some matched_rule) \<Rightarrow>
                          (let g = (case rule_group matched_rule of
                                      None \<Rightarrow> ''Other''
                                    | Some n \<Rightarrow> if n \<noteq> [] then n else ''Other'');
                               prio = rule_priority matched_rule
                           in Inr (Some \<lparr>url = u, path = pth, group = g, priority = prio,
                                         score = compute_score g prio pth\<rparr>))
                      | Inr None \<Rightarrow>
                          (case (if auto_group (filters config) then auto_group_of py u pth
                                 else Inr ''Other'') of
                             Inl e \<Rightarrow> Inl e
                           | Inr g \<Rightarrow>
                               Inr (Some \<lparr>url = u, path = pth, group = g, priority = 0,
                                          score = compute_score g 0 pth\<rparr>))))))"

fun classify_all :: "release \<Rightarrow> (string \<Rightarrow> string \<Rightarrow> bool option) \<Rightarrow> AppConfig \<Rightarrow> FilterRule list
                     \<Rightarrow> string list \<Rightarrow> PageEntry list \<Rightarrow> py_error + PageEntry list" where
  "classify_all py re_search config excl [] acc = Inr acc"
| "classify_all py re_search config excl (u # us) acc =
     (case classify_url py re_search config excl u of
        Inl e \<Rightarrow> Inl e
      | Inr None \<Rightarrow> classify_all py re_search config excl us acc
      | Inr (Some entry) \<Rightarrow> classify_all py re_search config excl us (acc @ [entry]))"

text \<open>The sort key of a page: \<open>(p.group, -p.score, p.path)\<close>, compared as Python compares
  tuples and strings.\<close>

definition page_key :: "PageEntry \<Rightarrow> string \<times> int \<times> string" where
  "page_key p = (group p, - score p, path p)"

definition filter_and_group_urls :: "release \<Rightarrow> (string \<Rightarrow> string \<Rightarrow> bool option) \<Rightarrow> AppConfig
                                     \<Rightarrow> string list \<Rightarrow> py_error + PageEntry list" where
  "filter_and_group_urls py re_search config urls =
     (let excl = (if use_default_excludes (filters config)
                  then default_exclude_rules @ exclude_rules (filters config)
                  else exclude_rules (filters config))
      in case classify_all py re_search config excl urls [] of
           Inl e \<Rightarrow> Inl e
         | Inr found \<Rightarrow> Inr (sort_key page_key found))"

section \<open>generator.py: the per-group limits\<close>

text \<open>
  The step of \<open>_generate_llms_from_urls\<close> that applies the per-group limits to the
  classifier's list. \<open>group_limits\<close> is the dictionary \<open>config.filters.group_limits\<close> as
  the list of its items, \<open>default_limit\<close> is \<open>config.filters.default_group_limit\<close>.
  \<open>by_group\<close> is the dictionary of the pages of each group, in the order in which the
  groups first occur.
\<close>

fun by_group_append :: "PageEntry \<Rightarrow> (string \<times> PageEntry list) list \<Rightarrow> (string \<times> PageEntry list) list" where
  "by_group_append p [] = [(group p, [p])]"
| "by_group_append p ((g, ps) # rest) =
     (if g = group p then (g, ps @ [p]) # rest else (g, ps) # by_group_append p rest)"

definition by_group :: "PageEntry list \<Rightarrow> (string \<times> PageEntry list) list" where
  "by_group pages = foldl (\<lambda>d p. by_group_append p d) [] pages"

definition limit_group :: "(string \<times> int) list \<Rightarrow> int option \<Rightarrow> string \<times> PageEntry list \<Rightarrow> PageEntry list" where
  "limit_group group_limits default_limit entry =
     (case entry of (gname, gpages) \<Rightarrow>
        (let limit = (case map_of group_limits gname of Some l \<Rightarrow> Some l | None \<Rightarrow> default_limit)
         in case limit of
              None \<Rightarrow> gpages
            | Some l \<Rightarrow> if l \<le> 0 then gpages
                        else take (nat l) (sort_key (\<lambda>p. - score p) gpages)))"

definition apply_group_limits :: "(string \<times> int) list \<Rightarrow> int option \<Rightarrow> PageEntry list \<Rightarrow> PageEntry list" where
  "apply_group_limits group_limits default_limit pages =
     (if group_limits \<noteq> [] \<or> (default_limit \<noteq> None \<and> default_limit \<noteq> Some 0)
      then sort_key page_key (concat (map (limit_group group_limits default_limit) (by_group pages)))
      else pages)"

section \<open>Example inputs\<close>

text \<open>A response with an HTML content type, no \<open>Retry-After\<close> header and the given links.\<close>

definition html_response :: "int \<Rightarrow> string list \<Rightarrow> response" where
  "html_response status hrefs =
     \<lparr>status_code = status, retry_after = None, content_type = Some ''text/html'',
      http_error = '''', links = Some hrefs\<rparr>"




text \<open>A server that answers every attempt with the same status.\<close>

definition always_status :: "int \<Rightarrow> server" where
  "always_status status u n = Responds (html_response status [])"

text \<open>The default arguments of \<open>crawl_site\<close>, with \<open>max_urls = n\<close>.\<close>

definition default_crawl_args :: "int \<Rightarrow> crawl_args" where
  "default_crawl_args n =
     \<lparr>max_urls = n, max_depth = 2, root_domain = None, allow_same_root_subdomains = False,
      polite = True, request_delay_s = 1 / 4, max_retries = 4\<rparr>"



text \<open>A sitemap index whose only child sitemap is not served.\<close>

definition broken_child_site :: sitemap_site where
  "broken_child_site =
     [(''https://a.com/sitemap.xml'', XmlRoot ''sitemapindex'' [] [Some ''https://a.com/child.xml''])]"

text \<open>
  A stand-in for \<open>re.search\<close> that reads a leading \<open>^\<close> as the start anchor and every
  other character literally; every pattern compiles. It agrees with \<open>re.search\<close> on the
  patterns \<open>^/docs\<close> and \<open>blog\<close>.
\<close>

definition literal_search :: "string \<Rightarrow> string \<Rightarrow> bool option" where
  "literal_search pat s =
     Some (if startswith pat ''^'' then startswith s (drop 1 pat) else contains s pat)"

definition docs_rule :: FilterRule where
  "docs_rule = \<lparr>pattern = ''^/docs'', rule_group = Some ''Docs'', rule_priority = 0\<rparr>"

definition blog_rule :: FilterRule where
  "blog_rule = \<lparr>pattern = ''blog'', rule_group = None, rule_priority = 0\<rparr>"

text \<open>A configuration with the include rule \<open>^/docs\<close> (group Docs) and the exclude rule
  \<open>blog\<close>; \<open>b\<close> switches the built-in exclude rules on.\<close>

definition docs_config :: "bool \<Rightarrow> AppConfig" where
  "docs_config b =
     \<lparr>site = \<lparr>base_url = ''https://a.com'', default_language = ''en''\<rparr>,
      filters = \<lparr>include_rules = [docs_rule], exclude_rules = [blog_rule], auto_group = True,
                 use_default_excludes = b, auto_filter_languages = True\<rparr>\<rparr>"

text \<open>Ten pages of the group Blog with ten different scores.\<close>

definition blog_page :: "string \<Rightarrow> int \<Rightarrow> PageEntry" where
  "blog_page name sc =
     \<lparr>url = ''https://a.com/blog/'' @ name, path = ''/blog/'' @ name, group = ''Blog'',
      priority = 0, score = sc\<rparr>"

definition ten_blog_pages :: "PageEntry list" where
  "ten_blog_pages =
     [blog_page ''a'' 21, blog_page ''b'' 25, blog_page ''c'' 23, blog_page ''d'' 29,
      blog_page ''e'' 27, blog_page ''f'' 22, blog_page ''g'' 30, blog_page ''h'' 24,
      blog_page ''i'' 28, blog_page ''j'' 26]"

section \<open>Properties of the URL normalizer and of the final de-duplication\<close>

lemma normalize_https_a_x:
  "normalize_url py ''https://a.com/x'' True True True = Inr ''https://a.com/x''"
  by code_simp

lemma normalize_https_A_x_slash:
  "normalize_url py ''https://A.com/x/'' True True True = Inr ''https://a.com/x''"
  by code_simp

lemma normalize_http_a_x:
  "normalize_url py ''http://a.com/x'' True True True = Inr ''https://a.com/x''"
  by code_simp

lemma allowed_https_a_x:
  "sitemap_is_allowed_domain py [''a.com''] ''https://a.com/x'' = Inr True"
  by code_simp

lemma allowed_https_A_x_slash:
  "sitemap_is_allowed_domain py [''a.com''] ''https://A.com/x/'' = Inr True"
  by code_simp

lemma allowed_http_a_x:
  "sitemap_is_allowed_domain py [''a.com''] ''http://a.com/x'' = Inr True"
  by code_simp

text \<open>
  C1. With preferHTTPS, dropFragment and stripTrailingSlash all true, the three URLs
  \<open>https://a.com/x\<close>, \<open>https://A.com/x/\<close> and \<open>http://a.com/x\<close> normalize to the same
  canonical string, and the final pass of the Source Collector (allowed-domain filter,
  canonicalize, de-duplicate, truncate to the global budget) emits exactly one entry for
  them, whatever the global budget is.
\<close>

theorem dedup_three_variants_one_entry:
  "normalize_url py ''https://a.com/x'' True True True = Inr ''https://a.com/x''
   \<and> normalize_url py ''https://A.com/x/'' True True True = Inr ''https://a.com/x''
   \<and> normalize_url py ''http://a.com/x'' True True True = Inr ''https://a.com/x''
   \<and> dedup_collected py [''a.com''] global_max
         [''https://a.com/x'', ''https://A.com/x/'', ''http://a.com/x'']
       = Inr [''https://a.com/x'']"
proof -
  have "dedup_collected py [''a.com''] global_max
         [''https://a.com/x'', ''https://A.com/x/'', ''http://a.com/x'']
       = Inr [''https://a.com/x'']"
    by (simp add: dedup_collected_def Let_def normalize_https_a_x normalize_https_A_x_slash
        normalize_http_a_x allowed_https_a_x allowed_https_A_x_slash allowed_http_a_x)
  then show ?thesis
    by (simp add: normalize_https_a_x normalize_https_A_x_slash normalize_http_a_x)
qed

















section \<open>Properties of the crawler\<close>

lemma fetch_with_retry_404:
  assumes "srv current 0 = Responds r" "status_code r = 404" "0 \<le> mr"
  shows "fetch_with_retry srv delay current mr
         = (None, None, (if delay then [PoliteSleep] else []) @ [Get current])"
proof -
  from assms(3) obtain k where k: "nat (mr + 1) = Suc k"
    by (metis Suc_nat_eq_nat_zadd1 add.commute)
  show ?thesis
    unfolding fetch_with_retry_def k using assms(1,2) by (simp add: Let_def)
qed

lemma record_failure_keeps:
  "results (record_failure c e st) = results st \<and> events (record_failure c e st) = events st
   \<and> queue (record_failure c e st) = queue st"
  by (simp add: record_failure_def Let_def split: option.splits)

lemma crawl_iteration_404:
  assumes q: "queue st = (p, c, current, d) # remaining"
      and r: "srv current 0 = Responds r" "status_code r = 404" "0 \<le> max_retries args"
      and it: "crawl_iteration py srv args st = Inr st'"
  shows "results st' = results st \<and> queue st' = remaining \<and>
         (events st' = events st \<or>
          events st' = events st @ (if polite args \<and> request_delay_s args > 0 then [PoliteSleep] else [])
                                 @ [Get current])"
proof -
  have f: "\<And>delay. fetch_with_retry srv delay current (max_retries args)
         = (None, None, (if delay then [PoliteSleep] else []) @ [Get current])"
    using fetch_with_retry_404[of srv current r "max_retries args"] r by blast
  show ?thesis
    using it unfolding crawl_iteration_def q
    by (auto simp: Let_def f record_failure_keeps split: if_splits sum.splits bool.splits)
qed

text \<open>
  C7. When the first fetch attempt on a crawl target returns HTTP 404, the retry loop
  ends after that one \<open>session.get\<close>: the only calls are the politeness delay (when
  politeness is on) and the one fetch, with no back-off sleep and no second attempt, and
  the response is dropped. The loop iteration that dequeues the target leaves the results
  as they were and makes no other call.
\<close>

theorem crawl_404_single_attempt:
  assumes "srv current 0 = Responds r" and "status_code r = 404" and "0 \<le> max_retries args"
  shows "fetch_with_retry srv delay current (max_retries args)
           = (None, None, (if delay then [PoliteSleep] else []) @ [Get current])
         \<and> (\<forall>st st' p c d remaining.
               queue st = (p, c, current, d) # remaining \<longrightarrow>
               crawl_iteration py srv args st = Inr st' \<longrightarrow>
               results st' = results st \<and> queue st' = remaining \<and>
               (events st' = events st \<or>
                events st' = events st
                   @ (if polite args \<and> request_delay_s args > 0 then [PoliteSleep] else [])
                   @ [Get current]))"
proof -
  have "fetch_with_retry srv delay current (max_retries args)
           = (None, None, (if delay then [PoliteSleep] else []) @ [Get current])"
    using fetch_with_retry_404[of srv current r "max_retries args" delay] assms by blast
  moreover have "\<And>st st' p c d remaining.
      queue st = (p, c, current, d) # remaining \<Longrightarrow> crawl_iteration py srv args st = Inr st' \<Longrightarrow>
      results st' = results st \<and> queue st' = remaining \<and>
      (events st' = events st \<or>
       events st' = events st
          @ (if polite args \<and> request_delay_s args > 0 then [PoliteSleep] else [])
          @ [Get current])"
    using crawl_iteration_404[of _ _ _ current _ _ srv r args py] assms by blast
  ultimately show ?thesis by blast
qed

theorem crawl_404_single_attempt_witness:
  "always_status 404 ''https://a.com/x'' 0 = Responds (html_response 404 [])
   \<and> status_code (html_response 404 []) = 404
   \<and> 0 \<le> max_retries (default_crawl_args 10)
   \<and> fetch_with_retry (always_status 404) True ''https://a.com/x'' (max_retries (default_crawl_args 10))
       = (None, None, [PoliteSleep, Get ''https://a.com/x''])"
  using crawl_404_single_attempt
          [of "always_status 404" "''https://a.com/x''" "html_response 404 []" "default_crawl_args 10" True]
  by (simp add: always_status_def html_response_def default_crawl_args_def)












text \<open>
  C4, at a failing input. Every attempt on the start URL returns status 520 with an HTML
  content type. After the five attempts the variable \<open>resp\<close> still holds the last
  response, so the URL is appended to the results and no failure is recorded in the sink.
\<close>

theorem crawl_keeps_url_after_520_exhaustion:
  "\<forall>py. crawl_site 10 py (always_status 520) ''https://a.com/'' {''a.com''} (default_crawl_args 100) (Some [])
     = Some (Inr \<lparr>visited = {''https://a.com/''}, results = [''https://a.com/''],
                  queue = [], counter = 1, dynamic_allowed_hosts = {''a.com''},
                  failed_urls = Some [],
                  events =
                    [PoliteSleep, Get ''https://a.com/'', Backoff5xx 0,
                     PoliteSleep, Get ''https://a.com/'', Backoff5xx 1,
                     PoliteSleep, Get ''https://a.com/'', Backoff5xx 2,
                     PoliteSleep, Get ''https://a.com/'', Backoff5xx 3,
                     PoliteSleep, Get ''https://a.com/'', Backoff5xx 4]\<rparr>)"
proof
  fix py :: release
  show "crawl_site 10 py (always_status 520) ''https://a.com/'' {''a.com''} (default_crawl_args 100) (Some [])
     = Some (Inr \<lparr>visited = {''https://a.com/''}, results = [''https://a.com/''],
                  queue = [], counter = 1, dynamic_allowed_hosts = {''a.com''},
                  failed_urls = Some [],
                  events =
                    [PoliteSleep, Get ''https://a.com/'', Backoff5xx 0,
                     PoliteSleep, Get ''https://a.com/'', Backoff5xx 1,
                     PoliteSleep, Get ''https://a.com/'', Backoff5xx 2,
                     PoliteSleep, Get ''https://a.com/'', Backoff5xx 3,
                     PoliteSleep, Get ''https://a.com/'', Backoff5xx 4]\<rparr>)"
    by code_simp
qed

section \<open>Properties of the sitemap reader\<close>

text \<open>
  C2, at a failing input. The sitemap of the source is an index whose child sitemap
  cannot be fetched. The exception of the child's \<open>_fetch_xml\<close> is raised inside
  \<open>_expand_sitemap_index\<close>, where nothing catches it, and leaves
  \<open>_collect_from_sitemap_source\<close>.
\<close>

theorem collect_from_sitemap_source_raises_on_broken_child:
  "collect_from_sitemap_source 5 broken_child_site ''https://a.com/sitemap.xml'' {}
     = Some (Inl RequestException)"
  by code_simp

















section \<open>Properties of the classifier\<close>

lemma any_exact_match_iff:
  "any_exact_match re pth excl = Inr b \<Longrightarrow>
     b = (\<exists>r \<in> set excl. exact_anchored r \<and> re (pattern r) pth = Some True)"
  by (induction excl) (auto simp: match_rule_def split: option.splits if_splits)

lemma any_match_iff:
  "any_match re pth rs = Inr b \<Longrightarrow> b = (\<exists>r \<in> set rs. re (pattern r) pth = Some True)"
  by (induction rs) (auto simp: match_rule_def split: option.splits bool.splits)

lemma any_exact_match_none_anchored:
  "\<forall>r \<in> set excl. re (pattern r) pth \<noteq> None \<and> \<not> exact_anchored r \<Longrightarrow>
     any_exact_match re pth excl = Inr False"
  by (induction excl) (auto simp: match_rule_def split: option.splits)

lemma default_rules_not_anchored: "\<forall>r \<in> set default_exclude_rules. \<not> exact_anchored r"
proof -
  have "list_all (\<lambda>r. \<not> exact_anchored r) default_exclude_rules" by code_simp
  then show ?thesis by (simp add: list_all_iff)
qed

lemma blog_rule_not_anchored: "\<not> exact_anchored blog_rule" by code_simp

lemma docs_path: "relative_path py ''https://a.com'' ''https://a.com/docs/blog/post'' = Inr ''/docs/blog/post''"
  by code_simp

lemma docs_lang: "detect_language_prefix ''/docs/blog/post'' = None" by code_simp

lemma docs_score: "compute_score ''Docs'' 0 ''/docs/blog/post'' = 24" by code_simp

lemma docs_rule_fields: "rule_group docs_rule = Some ''Docs''" "rule_priority docs_rule = 0"
  by (simp_all add: docs_rule_def)

lemma docs_config_fields:
  "use_default_excludes (filters (docs_config b)) = b"
  "exclude_rules (filters (docs_config b)) = [blog_rule]"
  "include_rules (filters (docs_config b)) = [docs_rule]"
  "auto_filter_languages (filters (docs_config b)) = True"
  "base_url (site (docs_config b)) = ''https://a.com''"
  "default_language (site (docs_config b)) = ''en''"
  by (simp_all add: docs_config_def)

lemma docs_classify:
  assumes m: "re ''^/docs'' ''/docs/blog/post'' = Some True"
      and c: "\<forall>r \<in> set excl. re (pattern r) ''/docs/blog/post'' \<noteq> None \<and> \<not> exact_anchored r"
  shows "classify_url py re (docs_config b) excl ''https://a.com/docs/blog/post''
        = Inr (Some \<lparr>url = ''https://a.com/docs/blog/post'', path = ''/docs/blog/post'',
                      group = ''Docs'', priority = 0, score = 24\<rparr>)"
proof -
  let ?p = "''/docs/blog/post''"
  have inc: "any_match re ?p [docs_rule] = Inr True"
    using m by (simp add: match_rule_def docs_rule_def)
  have fm: "first_match re ?p [docs_rule] = Inr (Some docs_rule)"
    using m by (simp add: match_rule_def docs_rule_def)
  have ex: "any_exact_match re ?p excl = Inr False"
    using c by (rule any_exact_match_none_anchored)
  have "is_excluded re [docs_rule] excl ?p = Inr False"
    unfolding is_excluded_def using inc ex by simp
  then show ?thesis
    unfolding classify_url_def
    by (simp add: docs_config_fields docs_path docs_lang fm docs_score Let_def docs_rule_fields
          del: first_match.simps)
qed

lemma docs_example:
  assumes m: "re ''^/docs'' ''/docs/blog/post'' = Some True"
      and c: "\<forall>r \<in> set (default_exclude_rules @ [blog_rule]). re (pattern r) ''/docs/blog/post'' \<noteq> None"
  shows "filter_and_group_urls py re (docs_config b) [''https://a.com/docs/blog/post'']
         = Inr [\<lparr>url = ''https://a.com/docs/blog/post'', path = ''/docs/blog/post'', group = ''Docs'',
                 priority = 0, score = 24\<rparr>]"
proof -
  have c1: "\<forall>r \<in> set (default_exclude_rules @ [blog_rule]).
              re (pattern r) ''/docs/blog/post'' \<noteq> None \<and> \<not> exact_anchored r"
    using c default_rules_not_anchored blog_rule_not_anchored by auto
  then have c2: "\<forall>r \<in> set [blog_rule]. re (pattern r) ''/docs/blog/post'' \<noteq> None \<and> \<not> exact_anchored r"
    by simp
  show ?thesis
    unfolding filter_and_group_urls_def Let_def
    by (cases b)
       (simp_all add: docs_config_fields
          docs_classify[where re = re and excl = "default_exclude_rules @ [blog_rule]", OF m c1]
          docs_classify[where re = re and excl = "[blog_rule]", OF m c2])
qed

lemma is_excluded_iff:
  assumes "is_excluded re incl excl pth = Inr b"
  shows "b = (if \<exists>r \<in> set incl. re (pattern r) pth = Some True
              then \<exists>r \<in> set excl. exact_anchored r \<and> re (pattern r) pth = Some True
              else \<exists>r \<in> set excl. re (pattern r) pth = Some True)"
proof (cases "excl = []")
  case True
  then show ?thesis using assms by (simp add: is_excluded_def)
next
  case False
  then obtain m where m: "any_match re pth incl = Inr m"
      and b: "(if m then any_exact_match re pth excl else any_match re pth excl) = Inr b"
    using assms by (auto simp: is_excluded_def split: sum.splits)
  have mi: "m = (\<exists>r \<in> set incl. re (pattern r) pth = Some True)" using any_match_iff[OF m] .
  show ?thesis
  proof (cases m)
    case True
    then have "any_exact_match re pth excl = Inr b" using b by simp
    from any_exact_match_iff[OF this] show ?thesis using True mi by simp
  next
    case False
    then have "any_match re pth excl = Inr b" using b by simp
    from any_match_iff[OF this] show ?thesis using False mi by simp
  qed
qed

lemma classify_url_kept:
  assumes c: "classify_url py re config excl u = Inr res"
      and p: "relative_path py (base_url (site config)) u = Inr pth"
      and l: "\<not> auto_filter_languages (filters config)
              \<or> detect_language_prefix pth = None
              \<or> detect_language_prefix pth = Some []
              \<or> detect_language_prefix pth
                  = Some (lower (if default_language (site config) \<noteq> []
                                 then default_language (site config) else ''en''))"
  shows "(res = None)
         = (if \<exists>r \<in> set (include_rules (filters config)). re (pattern r) pth = Some True
            then \<exists>r \<in> set excl. exact_anchored r \<and> re (pattern r) pth = Some True
            else \<exists>r \<in> set excl. re (pattern r) pth = Some True)"
proof -
  have nl: "\<not> (auto_filter_languages (filters config) \<and> detect_language_prefix pth \<noteq> None
               \<and> detect_language_prefix pth \<noteq> Some []
               \<and> detect_language_prefix pth
                   \<noteq> Some (lower (if default_language (site config) \<noteq> []
                                   then default_language (site config) else ''en'')))"
    using l by fastforce
  obtain b where b: "is_excluded re (include_rules (filters config)) excl pth = Inr b"
      and r: "b \<longleftrightarrow> res = None"
    using c unfolding classify_url_def p sum.case Let_def if_not_P[OF nl]
    by (auto split: sum.splits bool.splits option.splits)
  show ?thesis using is_excluded_iff[OF b] r by simp
qed

lemma classify_url_same_url:
  "classify_url py re config excl u = Inr (Some e) \<Longrightarrow> url e = u"
  by (auto simp: classify_url_def Let_def split: sum.splits bool.splits option.splits if_splits)

lemma classify_all_urls:
  "classify_all py re config excl us acc = Inr found \<Longrightarrow>
     (\<forall>u \<in> set us. \<exists>res. classify_url py re config excl u = Inr res)
     \<and> url ` set found
         = url ` set acc \<union> {u \<in> set us. \<exists>e. classify_url py re config excl u = Inr (Some e)}"
proof (induction us arbitrary: acc)
  case Nil
  then show ?case by simp
next
  case (Cons u us)
  show ?case
  proof (cases "classify_url py re config excl u")
    case (Inl e)
    then show ?thesis using Cons.prems by simp
  next
    case (Inr res)
    show ?thesis
    proof (cases res)
      case None
      then have "classify_all py re config excl us acc = Inr found" using Cons.prems Inr by simp
      from Cons.IH[OF this] show ?thesis using Inr None by auto
    next
      case (Some e)
      then have "classify_all py re config excl us (acc @ [e]) = Inr found"
        using Cons.prems Inr by simp
      from Cons.IH[OF this] show ?thesis
        using Inr Some classify_url_same_url[of py re config excl u e] by auto
    qed
  qed
qed

lemma filter_and_group_urls_kept:
  assumes f: "filter_and_group_urls py re config urls = Inr pages"
      and e: "excl = (if use_default_excludes (filters config)
                      then default_exclude_rules @ exclude_rules (filters config)
                      else exclude_rules (filters config))"
      and u: "u \<in> set urls"
  shows "\<exists>res. classify_url py re config excl u = Inr res \<and> (u \<in> url ` set pages \<longleftrightarrow> res \<noteq> None)"
proof -
  obtain found where ca: "classify_all py re config excl urls [] = Inr found"
      and pg: "pages = sort_key page_key found"
    using f unfolding filter_and_group_urls_def Let_def e[symmetric] by (auto split: sum.splits)
  note A = classify_all_urls[OF ca]
  from A u obtain res where res: "classify_url py re config excl u = Inr res" by blast
  have "url ` set pages = {u \<in> set urls. \<exists>e. classify_url py re config excl u = Inr (Some e)}"
    using A pg by simp
  then have "u \<in> url ` set pages \<longleftrightarrow> res \<noteq> None" using u res by auto
  then show ?thesis using res by blast
qed

text \<open>
  C5. Of the URLs given to the classifier, those that come out are: when an include rule
  matches the path, the URLs that no exact-anchored exclude rule matches (an exclude rule
  whose pattern does not start with \<open>^\<close> and end with \<open>$\<close> cannot exclude them); when no
  include rule matches, the URLs that no exclude rule matches. This holds for every URL
  that the language filter keeps, \<open>excl\<close> being the exclude rules in force (the built-in
  ones, when they are switched on, and the configured ones). With the include rule
  \<open>^/docs\<close> (group Docs) and the exclude rule \<open>blog\<close>, the URL with path \<open>/docs/blog/post\<close> is
  kept, in the group Docs, with the built-in exclude rules on or off. The statement holds
  for every regular-expression matcher; in the example, for every one in which \<open>^/docs\<close>
  matches the path and the exclude patterns compile.
\<close>

theorem include_match_narrows_exclusion:
  "(filter_and_group_urls py re config urls = Inr pages \<longrightarrow>
    u \<in> set urls \<longrightarrow>
    relative_path py (base_url (site config)) u = Inr pth \<longrightarrow>
    (\<not> auto_filter_languages (filters config)
       \<or> detect_language_prefix pth = None
       \<or> detect_language_prefix pth = Some []
       \<or> detect_language_prefix pth
            = Some (lower (if default_language (site config) \<noteq> []
                           then default_language (site config) else ''en''))) \<longrightarrow>
    excl = (if use_default_excludes (filters config)
            then default_exclude_rules @ exclude_rules (filters config)
            else exclude_rules (filters config)) \<longrightarrow>
    (u \<in> url ` set pages)
      = (if \<exists>r \<in> set (include_rules (filters config)). re (pattern r) pth = Some True
         then \<not> (\<exists>r \<in> set excl. exact_anchored r \<and> re (pattern r) pth = Some True)
         else \<not> (\<exists>r \<in> set excl. re (pattern r) pth = Some True)))
   \<and> (re ''^/docs'' ''/docs/blog/post'' = Some True \<longrightarrow>
        (\<forall>r \<in> set (default_exclude_rules @ [blog_rule]). re (pattern r) ''/docs/blog/post'' \<noteq> None) \<longrightarrow>
        filter_and_group_urls py re (docs_config dflt) [''https://a.com/docs/blog/post'']
          = Inr [\<lparr>url = ''https://a.com/docs/blog/post'', path = ''/docs/blog/post'',
                  group = ''Docs'', priority = 0, score = 24\<rparr>])"
proof (intro conjI impI)
  assume f: "filter_and_group_urls py re config urls = Inr pages"
     and u: "u \<in> set urls"
     and p: "relative_path py (base_url (site config)) u = Inr pth"
     and l: "\<not> auto_filter_languages (filters config)
       \<or> detect_language_prefix pth = None
       \<or> detect_language_prefix pth = Some []
       \<or> detect_language_prefix pth
            = Some (lower (if default_language (site config) \<noteq> []
                           then default_language (site config) else ''en''))"
     and e: "excl = (if use_default_excludes (filters config)
            then default_exclude_rules @ exclude_rules (filters config)
            else exclude_rules (filters config))"
  from filter_and_group_urls_kept[OF f e u]
  obtain res where res: "classify_url py re config excl u = Inr res"
    and k: "u \<in> url ` set pages \<longleftrightarrow> res \<noteq> None" by blast
  from classify_url_kept[OF res p l] k
  show "(u \<in> url ` set pages)
      = (if \<exists>r \<in> set (include_rules (filters config)). re (pattern r) pth = Some True
         then \<not> (\<exists>r \<in> set excl. exact_anchored r \<and> re (pattern r) pth = Some True)
         else \<not> (\<exists>r \<in> set excl. re (pattern r) pth = Some True))"
    by presburger
next
  assume "re ''^/docs'' ''/docs/blog/post'' = Some True"
     and "\<forall>r \<in> set (default_exclude_rules @ [blog_rule]). re (pattern r) ''/docs/blog/post'' \<noteq> None"
  then show "filter_and_group_urls py re (docs_config dflt) [''https://a.com/docs/blog/post'']
          = Inr [\<lparr>url = ''https://a.com/docs/blog/post'', path = ''/docs/blog/post'',
                  group = ''Docs'', priority = 0, score = 24\<rparr>]"
    by (rule docs_example[where re = re])
qed

lemma literal_docs: "literal_search ''^/docs'' ''/docs/blog/post'' = Some True" by code_simp

lemma literal_compiles:
  "list_all (\<lambda>r. literal_search (pattern r) ''/docs/blog/post'' \<noteq> None) (default_exclude_rules @ [blog_rule])"
  by code_simp

lemma literal_two_urls:
  "filter_and_group_urls (cpython_3_11 (\<lambda>h. False)) literal_search (docs_config True)
       [''https://a.com/docs/blog/post'', ''https://a.com/blog/post'']
     = Inr [\<lparr>url = ''https://a.com/docs/blog/post'', path = ''/docs/blog/post'',
             group = ''Docs'', priority = 0, score = 24\<rparr>]"
  by code_simp

lemma literal_blog_path:
  "relative_path (cpython_3_11 (\<lambda>h. False)) ''https://a.com'' ''https://a.com/blog/post'' = Inr ''/blog/post''"
  "detect_language_prefix ''/blog/post'' = None"
  by code_simp+

lemma literal_blog_rules:
  "list_all (\<lambda>r. literal_search (pattern r) ''/blog/post'' \<noteq> Some True) [docs_rule]"
  "list_ex (\<lambda>r. literal_search (pattern r) ''/blog/post'' = Some True) (default_exclude_rules @ [blog_rule])"
  by code_simp+

theorem include_match_narrows_exclusion_witness:
  "filter_and_group_urls (cpython_3_11 (\<lambda>h. False)) literal_search (docs_config True)
       [''https://a.com/docs/blog/post'', ''https://a.com/blog/post'']
     = Inr [\<lparr>url = ''https://a.com/docs/blog/post'', path = ''/docs/blog/post'',
             group = ''Docs'', priority = 0, score = 24\<rparr>]
   \<and> relative_path (cpython_3_11 (\<lambda>h. False)) ''https://a.com'' ''https://a.com/blog/post''
       = Inr ''/blog/post''
   \<and> detect_language_prefix ''/blog/post'' = None
   \<and> list_all (\<lambda>r. literal_search (pattern r) ''/blog/post'' \<noteq> Some True) [docs_rule]
   \<and> list_ex (\<lambda>r. literal_search (pattern r) ''/blog/post'' = Some True)
         (default_exclude_rules @ [blog_rule])
   \<and> ''https://a.com/blog/post''
       \<notin> url ` set [\<lparr>url = ''https://a.com/docs/blog/post'', path = ''/docs/blog/post'',
                       group = ''Docs'', priority = 0, score = 24\<rparr>]
   \<and> literal_search ''^/docs'' ''/docs/blog/post'' = Some True
   \<and> list_all (\<lambda>r. literal_search (pattern r) ''/docs/blog/post'' \<noteq> None)
         (default_exclude_rules @ [blog_rule])
   \<and> filter_and_group_urls (cpython_3_11 (\<lambda>h. False)) literal_search (docs_config True)
         [''https://a.com/docs/blog/post'']
       = Inr [\<lparr>url = ''https://a.com/docs/blog/post'', path = ''/docs/blog/post'',
               group = ''Docs'', priority = 0, score = 24\<rparr>]"
  using include_match_narrows_exclusion
          [where re = literal_search and py = "cpython_3_11 (\<lambda>h. False)" and dflt = True
             and config = "docs_config True"
             and urls = "[''https://a.com/docs/blog/post'', ''https://a.com/blog/post'']"
             and pages = "[\<lparr>url = ''https://a.com/docs/blog/post'', path = ''/docs/blog/post'',
                             group = ''Docs'', priority = 0, score = 24\<rparr>]"
             and u = "''https://a.com/blog/post''" and pth = "''/blog/post''"
             and excl = "default_exclude_rules @ [blog_rule]"]
        literal_docs literal_compiles literal_two_urls literal_blog_path literal_blog_rules
  by (simp add: list_all_iff list_ex_iff docs_config_fields)

section \<open>Properties of the per-group limits\<close>

lemma by_group_snoc: "by_group (ps @ [p]) = by_group_append p (by_group ps)"
  by (simp add: by_group_def)

lemma map_of_by_group_append:
  "map_of (by_group_append p d) g =
     (if g = group p then Some ((case map_of d g of None \<Rightarrow> [] | Some ps \<Rightarrow> ps) @ [p]) else map_of d g)"
  by (induction p d rule: by_group_append.induct) auto

lemma keys_by_group_append: "fst ` set (by_group_append p d) = insert (group p) (fst ` set d)"
  by (induction p d rule: by_group_append.induct) auto

lemma distinct_by_group_append:
  "distinct (map fst d) \<Longrightarrow> distinct (map fst (by_group_append p d))"
proof (induction p d rule: by_group_append.induct)
  case (1 p)
  then show ?case by simp
next
  case (2 p g ps rest)
  then show ?case using keys_by_group_append[of p rest] by (auto simp: image_iff)
qed

lemma distinct_by_group: "distinct (map fst (by_group ps))"
  by (induction ps rule: rev_induct) (simp_all add: by_group_def distinct_by_group_append)

lemma map_of_by_group:
  "map_of (by_group ps) g =
     (if [p \<leftarrow> ps. group p = g] = [] then None else Some [p \<leftarrow> ps. group p = g])"
proof (induction ps rule: rev_induct)
  case Nil
  then show ?case by (simp add: by_group_def)
next
  case (snoc x xs)
  show ?case
    unfolding by_group_snoc map_of_by_group_append using snoc by auto
qed

lemma set_limit_group: "set (limit_group gl dl (g, ps)) \<subseteq> set ps"
  by (auto simp: limit_group_def Let_def split: option.splits dest: in_set_takeD)

lemma filter_concat_groups:
  assumes "distinct (map fst d)" "\<forall>(g', ps) \<in> set d. \<forall>p \<in> set ps. group p = g'"
  shows "[p \<leftarrow> concat (map (limit_group gl dl) d). group p = g]
         = (case map_of d g of None \<Rightarrow> [] | Some ps \<Rightarrow> limit_group gl dl (g, ps))"
  using assms
proof (induction d)
  case Nil
  then show ?case by simp
next
  case (Cons e d)
  obtain g' ps where e: "e = (g', ps)" by (cases e)
  have grp: "\<forall>p \<in> set (limit_group gl dl (g', ps)). group p = g'"
    using Cons.prems(2) set_limit_group[of gl dl g' ps] by (auto simp: e)
  have IH: "[p \<leftarrow> concat (map (limit_group gl dl) d). group p = g]
         = (case map_of d g of None \<Rightarrow> [] | Some ps \<Rightarrow> limit_group gl dl (g, ps))"
    using Cons by simp
  show ?case
  proof (cases "g' = g")
    case True
    then have "map_of d g = None" using Cons.prems(1) e by (simp add: map_of_eq_None_iff)
    then show ?thesis using True grp IH e by (simp add: filter_id_conv)
  next
    case False
    then have "[p \<leftarrow> limit_group gl dl (g', ps). group p = g] = []"
      using grp by (auto simp: filter_empty_conv)
    then show ?thesis using False IH e by simp
  qed
qed

lemma by_group_entries:
  "\<forall>(g', ps) \<in> set (by_group pages). \<forall>p \<in> set ps. group p = g'"
proof -
  { fix g' ps assume "(g', ps) \<in> set (by_group pages)"
    then have "map_of (by_group pages) g' = Some ps"
      using distinct_by_group by (simp add: map_of_eq_Some_iff)
    then have "ps = [p \<leftarrow> pages. group p = g']"
      unfolding map_of_by_group by (auto split: if_splits)
    then have "\<forall>p \<in> set ps. group p = g'" by simp }
  then show ?thesis by auto
qed

lemma limited_group:
  "[p \<leftarrow> concat (map (limit_group gl dl) (by_group pages)). group p = g]
     = limit_group gl dl (g, [p \<leftarrow> pages. group p = g])"
proof -
  have "[p \<leftarrow> concat (map (limit_group gl dl) (by_group pages)). group p = g]
         = (case map_of (by_group pages) g of None \<Rightarrow> [] | Some ps \<Rightarrow> limit_group gl dl (g, ps))"
    by (rule filter_concat_groups[OF distinct_by_group by_group_entries])
  also have "\<dots> = limit_group gl dl (g, [p \<leftarrow> pages. group p = g])"
    unfolding map_of_by_group by (simp add: limit_group_def Let_def split: option.splits)
  finally show ?thesis .
qed

lemma sorted_key_same_group:
  assumes "\<forall>p \<in> set xs. group p = g" "sorted (map (\<lambda>p. - score p) xs)" "distinct (map score xs)"
  shows "sorted (map page_key xs)"
  using assms
proof (induction xs)
  case Nil
  then show ?case by simp
next
  case (Cons x xs)
  have "\<forall>y \<in> set xs. page_key x \<le> page_key y"
  proof
    fix y assume y: "y \<in> set xs"
    then have "- score x \<le> - score y" "score x \<noteq> score y" "group y = g" "group x = g"
      using Cons.prems by auto
    then show "page_key x \<le> page_key y" by (simp add: page_key_def less_eq_prod_def)
  qed
  then show ?case using Cons by simp
qed

lemma kept_of_group:
  assumes l: "map_of gl g = Some l" "0 < l"
      and d: "distinct (map score [p \<leftarrow> pages. group p = g])"
  shows "[p \<leftarrow> apply_group_limits gl dl pages. group p = g]
         = take (nat l) (sort_key (\<lambda>p. - score p) [p \<leftarrow> pages. group p = g])"
proof -
  let ?G = "[p \<leftarrow> pages. group p = g]"
  let ?T = "take (nat l) (sort_key (\<lambda>p. - score p) ?G)"
  have ne: "gl \<noteq> []" using l(1) by auto
  have lg: "limit_group gl dl (g, ?G) = ?T"
    using l by (simp add: limit_group_def Let_def)
  have grp: "\<forall>p \<in> set ?T. group p = g"
    by (auto dest!: in_set_takeD)
  have "sorted (take (nat l) (map (\<lambda>p. - score p) (sort_key (\<lambda>p. - score p) ?G)))"
    by (intro sorted_wrt_take) simp
  then have srt: "sorted (map (\<lambda>p. - score p) ?T)" by (simp add: take_map)
  have "distinct (map score (sort_key (\<lambda>p. - score p) ?G))"
    using d by (metis distinct_map distinct_sort set_sort)
  then have "distinct (take (nat l) (map score (sort_key (\<lambda>p. - score p) ?G)))"
    by (rule distinct_take)
  then have dst: "distinct (map score ?T)" by (simp add: take_map)
  have "[p \<leftarrow> apply_group_limits gl dl pages. group p = g]
        = sort_key page_key [p \<leftarrow> concat (map (limit_group gl dl) (by_group pages)). group p = g]"
    using ne by (simp add: apply_group_limits_def filter_sort)
  also have "\<dots> = sort_key page_key ?T" by (simp only: limited_group lg)
  also have "\<dots> = ?T"
    by (rule sort_key_id_if_sorted[OF sorted_key_same_group[OF grp srt dst]])
  finally show ?thesis .
qed

lemma top_of_sorted:
  assumes "sorted (map f xs)" "distinct (map f xs)" "p \<in> set (take n xs)" "q \<in> set xs - set (take n xs)"
  shows "f p < (f q :: int)"
proof -
  have q: "q \<in> set (drop n xs)"
    using assms(4) by (metis DiffD1 DiffD2 Un_iff append_take_drop_id set_append)
  have "sorted (map f (take n xs) @ map f (drop n xs))"
    using assms(1) by (metis append_take_drop_id map_append)
  then have "f p \<le> f q" using assms(3) q by (auto simp: sorted_append)
  moreover have "p \<noteq> q" using assms(3,4) by auto
  then have "f p \<noteq> f q"
    using assms(2,3,4) by (metis DiffD1 distinct_map in_set_takeD inj_on_def)
  ultimately show ?thesis by simp
qed

lemma apply_group_limits_sorted:
  "sorted (map page_key pages) \<Longrightarrow> sorted (map page_key (apply_group_limits gl dl pages))"
  by (simp add: apply_group_limits_def)

lemma filter_and_group_urls_sorted:
  "filter_and_group_urls py re config us = Inr pages \<Longrightarrow> sorted (map page_key pages)"
  by (auto simp: filter_and_group_urls_def Let_def split: sum.splits)

text \<open>
  C8. The list that the classifier returns is sorted by (group ascending, score
  descending, path ascending), and the per-group limits keep a sorted list sorted. For a
  group with a positive limit \<open>l\<close> whose pages have different scores, the pages of the
  group that survive are the first \<open>l\<close> of the group in score-descending order: there are
  \<open>min l n\<close> of them out of \<open>n\<close>, they come in score-descending order, and each has a
  higher score than every page of the group that was dropped. With ten pages of the group
  Blog and the limit 3, exactly the three best survive.
\<close>

theorem classifier_sorted_group_limit_keeps_best:
  "(filter_and_group_urls py re config us = Inr found \<longrightarrow> sorted (map page_key found))
   \<and> (sorted (map page_key pages) \<longrightarrow> sorted (map page_key (apply_group_limits gl dl pages)))
   \<and> (map_of gl g = Some l \<longrightarrow> 0 < l \<longrightarrow> distinct (map score [p \<leftarrow> pages. group p = g]) \<longrightarrow>
        [p \<leftarrow> apply_group_limits gl dl pages. group p = g]
           = take (nat l) (sort_key (\<lambda>p. - score p) [p \<leftarrow> pages. group p = g])
        \<and> length [p \<leftarrow> apply_group_limits gl dl pages. group p = g]
           = min (nat l) (length [p \<leftarrow> pages. group p = g])
        \<and> sorted (map (\<lambda>p. - score p) [p \<leftarrow> apply_group_limits gl dl pages. group p = g])
        \<and> (\<forall>p \<in> set [p \<leftarrow> apply_group_limits gl dl pages. group p = g].
            \<forall>q \<in> set [p \<leftarrow> pages. group p = g] - set [p \<leftarrow> apply_group_limits gl dl pages. group p = g].
              score q < score p))"
proof (intro conjI impI)
  assume "filter_and_group_urls py re config us = Inr found"
  then show "sorted (map page_key found)" by (rule filter_and_group_urls_sorted)
next
  assume "sorted (map page_key pages)"
  then show "sorted (map page_key (apply_group_limits gl dl pages))" by (rule apply_group_limits_sorted)
next
  let ?G = "[p \<leftarrow> pages. group p = g]"
  let ?S = "sort_key (\<lambda>p. - score p) ?G"
  let ?K = "[p \<leftarrow> apply_group_limits gl dl pages. group p = g]"
  assume a: "map_of gl g = Some l" "0 < l" "distinct (map score ?G)"
  have k: "?K = take (nat l) ?S" by (rule kept_of_group[OF a])
  show "?K = take (nat l) ?S" by (rule k)
  show "length ?K = min (nat l) (length ?G)" unfolding k by simp
  have "sorted (take (nat l) (map (\<lambda>p. - score p) ?S))"
    by (intro sorted_wrt_take) simp
  then show "sorted (map (\<lambda>p. - score p) ?K)"
    unfolding k by (simp add: take_map)
  have ds: "distinct (map (\<lambda>p. - score p) ?S)"
  proof -
    have "distinct (map score ?S)" using a(3) by (metis distinct_map distinct_sort set_sort)
    then show ?thesis by (simp add: distinct_map inj_on_def)
  qed
  show "\<forall>p \<in> set ?K. \<forall>q \<in> set ?G - set ?K. score q < score p"
  proof (intro ballI)
    fix p q assume p: "p \<in> set ?K" and q: "q \<in> set ?G - set ?K"
    have "q \<in> set ?S - set (take (nat l) ?S)" using q unfolding k by simp
    from top_of_sorted[of "\<lambda>p. - score p" ?S p "nat l" q, OF _ ds _ this] p
    show "score q < score p" unfolding k by simp
  qed
qed

lemma ten_blog_distinct: "distinct (map score [p \<leftarrow> ten_blog_pages. group p = ''Blog''])"
  by code_simp

lemma ten_blog_best:
  "take (nat 3) (sort_key (\<lambda>p. - score p) [p \<leftarrow> ten_blog_pages. group p = ''Blog''])
     = [blog_page ''g'' 30, blog_page ''d'' 29, blog_page ''i'' 28]"
  by code_simp

theorem classifier_sorted_group_limit_keeps_best_witness:
  "map_of [(''Blog'', 3)] ''Blog'' = Some (3::int) \<and> (0::int) < 3
   \<and> distinct (map score [p \<leftarrow> ten_blog_pages. group p = ''Blog''])
   \<and> length ten_blog_pages = 10
   \<and> [p \<leftarrow> apply_group_limits [(''Blog'', 3)] None ten_blog_pages. group p = ''Blog'']
       = [blog_page ''g'' 30, blog_page ''d'' 29, blog_page ''i'' 28]"
  using classifier_sorted_group_limit_keeps_best[where pages = ten_blog_pages and gl = "[(''Blog'', 3)]" and dl = None
             and g = "''Blog''" and l = 3]
        ten_blog_distinct ten_blog_best
  by (simp add: ten_blog_pages_def)

section \<open>Idempotence of the normalizer\<close>



lemma code_less: "code c < 256"
  by (simp add: code_def)









lemma in_set_lower: "k \<in> set (lower s) \<longleftrightarrow> (\<exists>c \<in> set s. lower_char c = k)"
  by (auto simp: lower_def)











































text \<open>
  None of the conditions of the amended claim can be dropped. The condition on what is
  left of the path is needed for \<open>https://a.com//\<close> (above). The other conditions:
  \<^item> a last segment with \<open>;\<close>: \<open>http://a.com/x;/\<close> gives \<open>https://a.com/x;\<close>, where the
    second pass reads \<open>;\<close> as the start of empty parameters and drops it;
  \<^item> a normalized URL that ends in white space: \<open>http://a.com/x /\<close> gives
    \<open>https://a.com/x \<close> (with the space), which the second pass strips;
  \<^item> a network location: in a release with the earlier test in \<open>urlunsplit\<close>, \<open>////x\<close>
    gives \<open>https://x\<close>, in which \<open>x\<close> has become the network location;
  \<^item> the lower-case network location is accepted: the verdict of \<open>urlsplit\<close> on a
    bracketed network location is left open by the model, and a verdict that accepts
    \<open>[A]\<close> and refuses \<open>[a]\<close> makes the second pass raise.
\<close>

lemma normalize_url_not_idempotent_on_params_marker:
  "normalize_url py ''http://a.com/x;/'' True True True = Inr ''https://a.com/x;''
   \<and> normalize_url py ''https://a.com/x;'' True True True = Inr ''https://a.com/x''"
  by code_simp

lemma normalize_url_not_idempotent_on_inner_space:
  "normalize_url py ''http://a.com/x /'' True True True = Inr ''https://a.com/x ''
   \<and> normalize_url py ''https://a.com/x '' True True True = Inr ''https://a.com/x''"
  by code_simp

lemma normalize_url_not_idempotent_without_netloc:
  "normalize_url (earlier_urlunsplit accepts) ''////x'' True True True = Inr ''https://x''
   \<and> normalize_url (earlier_urlunsplit accepts) ''https://x'' True True True = Inr ''https://x/''"
  by code_simp

lemma normalize_url_not_idempotent_on_refused_lower_case:
  "normalize_url (cpython_3_11 (\<lambda>h. h = ''A'')) ''http://[A]/'' True True True = Inr ''https://[a]/''
   \<and> normalize_url (cpython_3_11 (\<lambda>h. h = ''A'')) ''https://[a]/'' True True True = Inl ValueError"
  by code_simp

end
